theory Spec2Isabelle
  imports Complex_Main "HOL-Library.Sublist" "HOL-Library.Monad_Syntax"
begin

section \<open>Python strings\<close>

text \<open>
  A Python \<open>str\<close> is modelled as a \<open>string\<close> whose characters are the code points
  below 256 (Latin-1). On that range the tables below are those of CPython:
  \<open>str.isspace\<close> and the regular-expression class \<open>\s\<close> accept the twelve characters
  of \<open>is_space\<close>, \<open>\d\<close> accepts the ten ASCII digits, and \<open>str.lower\<close> adds 32 to
  \<open>A\<close>..\<open>Z\<close> and to 0xC0..0xDE except 0xD7.
\<close>

definition is_space :: "char \<Rightarrow> bool" where
  "is_space c = (c \<in> set [CHR 0x09, CHR 0x0A, CHR 0x0B, CHR 0x0C, CHR 0x0D,
                            CHR 0x1C, CHR 0x1D, CHR 0x1E, CHR 0x1F, CHR 0x20,
                            CHR 0x85, CHR 0xA0])"

definition is_digit :: "char \<Rightarrow> bool" where
  "is_digit c = (c \<in> set ''0123456789'')"

definition upper_chars :: string where
  "upper_chars = ''ABCDEFGHIJKLMNOPQRSTUVWXYZ'' @
     [CHR 0xC0, CHR 0xC1, CHR 0xC2, CHR 0xC3, CHR 0xC4, CHR 0xC5, CHR 0xC6, CHR 0xC7,
      CHR 0xC8, CHR 0xC9, CHR 0xCA, CHR 0xCB, CHR 0xCC, CHR 0xCD, CHR 0xCE, CHR 0xCF,
      CHR 0xD0, CHR 0xD1, CHR 0xD2, CHR 0xD3, CHR 0xD4, CHR 0xD5, CHR 0xD6,
      CHR 0xD8, CHR 0xD9, CHR 0xDA, CHR 0xDB, CHR 0xDC, CHR 0xDD, CHR 0xDE]"

definition lower_chars :: string where
  "lower_chars = ''abcdefghijklmnopqrstuvwxyz'' @
     [CHR 0xE0, CHR 0xE1, CHR 0xE2, CHR 0xE3, CHR 0xE4, CHR 0xE5, CHR 0xE6, CHR 0xE7,
      CHR 0xE8, CHR 0xE9, CHR 0xEA, CHR 0xEB, CHR 0xEC, CHR 0xED, CHR 0xEE, CHR 0xEF,
      CHR 0xF0, CHR 0xF1, CHR 0xF2, CHR 0xF3, CHR 0xF4, CHR 0xF5, CHR 0xF6,
      CHR 0xF8, CHR 0xF9, CHR 0xFA, CHR 0xFB, CHR 0xFC, CHR 0xFD, CHR 0xFE]"

definition lower_char :: "char \<Rightarrow> char" where
  "lower_char c = (case map_of (zip upper_chars lower_chars) c of Some d \<Rightarrow> d | None \<Rightarrow> c)"

text \<open>\<open>s.lower()\<close>\<close>

definition lower :: "string \<Rightarrow> string" where
  "lower s = map lower_char s"

text \<open>\<open>s.strip()\<close>\<close>

definition strip :: "string \<Rightarrow> string" where
  "strip s = rev (dropWhile is_space (rev (dropWhile is_space s)))"

text \<open>\<open>s.startswith(p)\<close>\<close>

fun starts_with :: "string \<Rightarrow> string \<Rightarrow> bool" where
  "starts_with [] s = True"
| "starts_with (p # ps) [] = False"
| "starts_with (p # ps) (c # cs) = (p = c \<and> starts_with ps cs)"

text \<open>\<open>p in s\<close> for two strings: \<open>p\<close> occurs in \<open>s\<close> as a contiguous substring.\<close>

fun is_in :: "string \<Rightarrow> string \<Rightarrow> bool" where
  "is_in p [] = (p = [])"
| "is_in p (c # cs) = (starts_with p (c # cs) \<or> is_in p cs)"

text \<open>\<open>sep.join(parts)\<close>\<close>

fun join :: "string \<Rightarrow> string list \<Rightarrow> string" where
  "join sep [] = []"
| "join sep [x] = x"
| "join sep (x # y # ys) = x @ sep @ join sep (y # ys)"

text \<open>Truthiness of an \<open>Optional[str]\<close>: \<open>None\<close> and the empty string are false.\<close>

fun truthy :: "string option \<Rightarrow> bool" where
  "truthy None = False"
| "truthy (Some s) = (s \<noteq> [])"

text \<open>
  An f-string, kept as the sequence of its parts: literal text, an interpolated optional
  float and an interpolated optional string. Python renders the parts with \<open>str()\<close> and
  concatenates them.
\<close>

datatype fpart = Lit string | FloatVal "rat option" | StrVal "string option"


section \<open>Step 1: candidate records (\<open>model.py\<close>)\<close>

text \<open>
  Scores are Python floats. They are modelled as rationals: the scorer only adds the
  constants 3.0, 1.0, 1.5 and 2.0, which binary floating point adds exactly, and NaN is
  not represented.
\<close>

record article =
  title :: string
  abstract :: string
  authors :: "string list"
  journal :: string
  year :: int
  pub_date :: string
  pmid :: string
  doi :: "string option"
  url :: string
  language :: string
  mesh_terms :: "string list"
  trial_design :: string
  sample_size :: "int option"
  multicenter :: "bool option"
  intervention :: string
  comparator :: string
  primary_outcome :: string
  effect_summary :: "string option"
  score :: "rat option"
  rationale :: "string option"


section \<open>Step 1: selection (\<open>select.py\<close>)\<close>

text \<open>
  An entry of the selection history, as \<open>record_selected_article\<close> writes it. Only
  \<open>entry.get("doi")\<close> and \<open>entry.get("pmid")\<close> are read back; a missing key and a JSON
  \<open>null\<close> are both \<open>None\<close>.
\<close>

record history_entry =
  entry_title :: "string option"
  entry_doi :: "string option"
  entry_pmid :: "string option"
  entry_journal :: "string option"
  entry_date_selected :: "string option"
  entry_score :: "rat option"
  entry_rationale :: "string option"

text \<open>The \<open>for entry in history\<close> loop of \<open>is_article_previously_selected\<close>.\<close>

fun history_loop :: "article \<Rightarrow> history_entry list \<Rightarrow> bool" where
  "history_loop a [] = False"
| "history_loop a (e # es) =
     (if truthy (doi a) \<and> entry_doi e = doi a then True
      else if pmid a \<noteq> [] \<and> entry_pmid e = Some (pmid a) then True
      else history_loop a es)"

definition is_article_previously_selected :: "article \<Rightarrow> history_entry list \<Rightarrow> bool" where
  "is_article_previously_selected a history =
     (let article_identifier = (if truthy (doi a) then doi a else Some (pmid a))
      in if \<not> truthy article_identifier then False else history_loop a history)"

text \<open>The sort key \<open>x.score or 0.0\<close>.\<close>

definition score_or_zero :: "article \<Rightarrow> rat" where
  "score_or_zero x = (case score x of Some s \<Rightarrow> s | None \<Rightarrow> 0)"

text \<open>
  \<open>sorted(articles, key=..., reverse=True)\<close>: Python's sort is stable, also under
  \<open>reverse=True\<close>, so records of equal score keep their input order. \<open>sort_key\<close> is a
  stable insertion sort; the negated key makes it descending.
\<close>

definition sort_by_score :: "article list \<Rightarrow> article list" where
  "sort_by_score articles = sort_key (\<lambda>x. - score_or_zero x) articles"

definition plain_rationale :: "article \<Rightarrow> fpart list" where
  "plain_rationale a =
     [Lit ''Selected article with highest score ('', FloatVal (score a),
      Lit '') based on: '', StrVal (rationale a)]"

definition previously_selected_rationale :: "article \<Rightarrow> fpart list" where
  "previously_selected_rationale a =
     [Lit ''Selected article with highest score ('', FloatVal (score a),
      Lit '') based on: '', StrVal (rationale a),
      Lit '' (Note: This article has been previously selected)'']"

text \<open>
  \<open>select_top_article\<close>. The history that \<open>load_selection_history()\<close> reads from disk is
  the parameter \<open>stored\<close>; it is consulted only when \<open>avoid_history\<close> is set.
\<close>

definition select_top_article ::
  "history_entry list \<Rightarrow> article list \<Rightarrow> bool \<Rightarrow> (article \<times> fpart list) option" where
  "select_top_article stored articles avoid_history =
     (if articles = [] then None
      else
        let history = (if avoid_history then stored else []);
            sorted_articles = sort_by_score articles
        in case sorted_articles of
             [] \<Rightarrow> None
           | top_article # _ \<Rightarrow>
               if \<not> avoid_history then Some (top_article, plain_rationale top_article)
               else
                 (case List.find (\<lambda>a. \<not> is_article_previously_selected a history)
                         sorted_articles of
                    Some a \<Rightarrow> Some (a, plain_rationale a)
                  | None \<Rightarrow> Some (top_article, previously_selected_rationale top_article)))"


section \<open>Step 1: deduplication (\<open>filters.py\<close>)\<close>

text \<open>\<open>identifier = article.doi if article.doi else article.pmid\<close>\<close>

definition doi_or_empty :: "article \<Rightarrow> string" where
  "doi_or_empty a = (case doi a of Some d \<Rightarrow> d | None \<Rightarrow> [])"

definition article_identifier :: "article \<Rightarrow> string" where
  "article_identifier a = (if truthy (doi a) then doi_or_empty a else pmid a)"

text \<open>
  The loop of \<open>deduplicate_articles\<close>, with its three variables \<open>seen_dois\<close>,
  \<open>seen_pmids\<close> and \<open>unique_articles\<close> passed along.
\<close>

fun dedup_loop ::
  "string set \<Rightarrow> string set \<Rightarrow> article list \<Rightarrow> article list \<Rightarrow> article list" where
  "dedup_loop seen_dois seen_pmids unique_articles [] = unique_articles"
| "dedup_loop seen_dois seen_pmids unique_articles (a # rest) =
     (if article_identifier a \<noteq> [] \<and> article_identifier a \<notin> seen_dois
         \<and> article_identifier a \<notin> seen_pmids
      then dedup_loop
             (if truthy (doi a) then insert (doi_or_empty a) seen_dois else seen_dois)
             (if pmid a \<noteq> [] then insert (pmid a) seen_pmids else seen_pmids)
             (unique_articles @ [a]) rest
      else dedup_loop seen_dois seen_pmids unique_articles rest)"

definition deduplicate_articles :: "article list \<Rightarrow> article list" where
  "deduplicate_articles articles = dedup_loop {} {} [] articles"


section \<open>Regular expressions\<close>

text \<open>
  The patterns of the source, as terms. \<open>re.search\<close> succeeds exactly when some substring
  of the text belongs to the language of the pattern, so it is decided here with
  derivatives, after wrapping the pattern in \<open>.*\<close> on both sides (\<open>any_char\<close> accepts
  every character, newline included, as that wrapping needs).
\<close>

datatype rx = Nul | Eps | Sat "char \<Rightarrow> bool" | Seq rx rx | Alt rx rx | Star rx

fun nullable :: "rx \<Rightarrow> bool" where
  "nullable Nul = False"
| "nullable Eps = True"
| "nullable (Sat p) = False"
| "nullable (Seq r s) = (nullable r \<and> nullable s)"
| "nullable (Alt r s) = (nullable r \<or> nullable s)"
| "nullable (Star r) = True"

fun deriv :: "char \<Rightarrow> rx \<Rightarrow> rx" where
  "deriv c Nul = Nul"
| "deriv c Eps = Nul"
| "deriv c (Sat p) = (if p c then Eps else Nul)"
| "deriv c (Seq r s) =
     (if nullable r then Alt (Seq (deriv c r) s) (deriv c s) else Seq (deriv c r) s)"
| "deriv c (Alt r s) = Alt (deriv c r) (deriv c s)"
| "deriv c (Star r) = Seq (deriv c r) (Star r)"

fun rx_match :: "rx \<Rightarrow> string \<Rightarrow> bool" where
  "rx_match r [] = nullable r"
| "rx_match r (c # cs) = rx_match (deriv c r) cs"

definition any_char :: rx where
  "any_char = Sat (\<lambda>c. True)"

definition re_search :: "rx \<Rightarrow> string \<Rightarrow> bool" where
  "re_search r s = rx_match (Seq (Star any_char) (Seq r (Star any_char))) s"

text \<open>\<open>r+\<close>, \<open>r?\<close>, a literal character, and a word under \<open>re.IGNORECASE\<close>.\<close>

definition Plus :: "rx \<Rightarrow> rx" where
  "Plus r = Seq r (Star r)"

definition Opt :: "rx \<Rightarrow> rx" where
  "Opt r = Alt r Eps"

definition chr :: "char \<Rightarrow> rx" where
  "chr c = Sat (\<lambda>x. x = c)"

text \<open>
  Under \<open>re.IGNORECASE\<close> a lower-case ASCII letter of the pattern matches itself and its
  capital; no other character below 256 folds to an ASCII letter.
\<close>

definition word_ignorecase :: "string \<Rightarrow> rx" where
  "word_ignorecase w = foldr (\<lambda>c r. Seq (Sat (\<lambda>x. lower_char x = c)) r) w Eps"

definition digit :: rx where
  "digit = Sat is_digit"

definition space :: rx where
  "space = Sat is_space"


section \<open>Step 1: scoring (\<open>scoring.py\<close>)\<close>

definition HIGH_QUALITY_JOURNALS :: "string list" where
  "HIGH_QUALITY_JOURNALS =
     [''Anesthesiology'',
      ''British Journal of Anaesthesia'',
      ''Anesthesia and Analgesia'',
      ''Anaesthesiology'',
      ''European Journal of Anaesthesiology'',
      ''Journal of Clinical Anesthesia'',
      ''Anesthesia & Analgesia'',
      ''Anaesthesia'',
      ''Acta Anaesthesiologica Scandinavica'',
      ''Canadian Journal of Anesthesia'',
      ''Regional Anesthesia and Pain Medicine'',
      ''Pain Medicine'',
      ''Journal of Anesthesia'',
      ''Anaesthesia, Pain & Intensive Care'',
      ''Middle East Journal of Anesthesiology'',
      ''Korean Journal of Anesthesiology'',
      ''Saudi Journal of Anaesthesia'',
      ''Indian Journal of Anaesthesia'',
      ''Journal of Anaesthesiology Clinical Pharmacology'',
      ''A & A Case Reports'']"

definition PATIENT_CENTERED_OUTCOMES :: "string list" where
  "PATIENT_CENTERED_OUTCOMES =
     [''pain'', ''mortality'', ''morbidity'', ''complications'', ''recovery'',
      ''discharge'', ''quality of life'', ''functional outcome'', ''patient satisfaction'',
      ''length of stay'', ''readmission'', ''adverse events'', ''safety'']"

definition CLINICALLY_ACTIONABLE_INTERVENTIONS :: "string list" where
  "CLINICALLY_ACTIONABLE_INTERVENTIONS =
     [''airway'', ''intubation'', ''ventilation'', ''regional'', ''block'',
      ''analgesia'', ''anesthetic'', ''sedation'', ''hemodynamic'', ''fluid'',
      ''blood pressure'', ''hypotension'', ''hypertension'', ''cardiac output'']"

text \<open>The pattern \<open>\d+\.?\d*%\<close>.\<close>

definition percentage_rx :: rx where
  "percentage_rx = Seq (Plus digit) (Seq (Opt (chr CHR ''.'')) (Seq (Star digit) (chr CHR ''%'')))"

text \<open>
  The pattern \<open>\d+\.?\d*\s*(increase|decrease|higher|lower|better|worse)\<close>, searched with
  \<open>re.IGNORECASE\<close>.
\<close>

definition direction_rx :: rx where
  "direction_rx =
     Seq (Plus digit) (Seq (Opt (chr CHR ''.'')) (Seq (Star digit) (Seq (Star space)
       (Alt (word_ignorecase ''increase'') (Alt (word_ignorecase ''decrease'')
       (Alt (word_ignorecase ''higher'') (Alt (word_ignorecase ''lower'')
       (Alt (word_ignorecase ''better'') (word_ignorecase ''worse'')))))))))"

text \<open>
  \<open>score_article\<close>. The running pair \<open>(score, rationale_parts)\<close> goes through the six
  rules in the order of the source; each rule is one step.
\<close>

type_synonym scoring = "rat \<times> string list"

definition award :: "bool \<Rightarrow> rat \<Rightarrow> string \<Rightarrow> scoring \<Rightarrow> scoring" where
  "award applies points reason st =
     (if applies then (fst st + points, snd st @ [reason]) else st)"

definition sample_size_rule :: "article \<Rightarrow> scoring \<Rightarrow> scoring" where
  "sample_size_rule a st =
     (case sample_size a of
        None \<Rightarrow> st
      | Some n \<Rightarrow>
          if n = 0 then st
          else if n \<ge> 500 then award True 3 ''large sample size (>500)'' st
          else if n \<ge> 100 then award True (3 / 2) ''moderate sample size (>100)'' st
          else st)"

definition effect_rule :: "article \<Rightarrow> scoring \<Rightarrow> scoring" where
  "effect_rule a st =
     (case effect_summary a of
        None \<Rightarrow> st
      | Some e \<Rightarrow>
          if e \<noteq> [] \<and> length (strip e) > 0
          then award (re_search percentage_rx e \<or> re_search direction_rx e) 1
                 ''quantified effect'' st
          else st)"

definition score_article :: "article \<Rightarrow> rat \<times> string" where
  "score_article a =
     (let st0 = (0, []);
          st1 = sample_size_rule a st0;
          st2 = award (multicenter a = Some True) 1 ''multicenter study'' st1;
          primary_outcome_lower = lower (primary_outcome a);
          st3 = award (list_ex (\<lambda>outcome. is_in outcome primary_outcome_lower)
                         PATIENT_CENTERED_OUTCOMES)
                  (3 / 2) ''patient-centered outcome'' st2;
          intervention_lower = lower (intervention a);
          st4 = award (list_ex (\<lambda>i. is_in i intervention_lower)
                         CLINICALLY_ACTIONABLE_INTERVENTIONS)
                  (3 / 2) ''clinically actionable intervention'' st3;
          st5 = award (journal a \<in> set HIGH_QUALITY_JOURNALS) 2 ''high-quality journal'' st4;
          st6 = effect_rule a st5;
          rationale_parts = snd st6
      in (fst st6,
          if rationale_parts \<noteq> [] then join ''; '' rationale_parts
          else ''no standout features''))"


section \<open>Step 1: notions used in the statements\<close>

text \<open>
  A candidate matches a history entry when its non-empty DOI is the entry's DOI or its
  non-empty PMID is the entry's PMID; it is in the history when it matches some entry.
\<close>

definition matches_entry :: "article \<Rightarrow> history_entry \<Rightarrow> bool" where
  "matches_entry a e =
     ((truthy (doi a) \<and> entry_doi e = doi a) \<or> (pmid a \<noteq> [] \<and> entry_pmid e = Some (pmid a)))"

definition in_history :: "article \<Rightarrow> history_entry list \<Rightarrow> bool" where
  "in_history a h = list_ex (matches_entry a) h"

text \<open>
  Example data: a candidate with a given PMID, DOI and score, and a history entry with a
  given DOI and PMID.
\<close>

definition candidate :: "string \<Rightarrow> string option \<Rightarrow> rat option \<Rightarrow> article" where
  "candidate p d s =
     \<lparr>title = ''t'', abstract = [], authors = [], journal = [], year = 2024, pub_date = [],
      pmid = p, doi = d, url = [], language = ''english'', mesh_terms = [],
      trial_design = [], sample_size = None, multicenter = None, intervention = [],
      comparator = [], primary_outcome = [], effect_summary = None, score = s,
      rationale = None\<rparr>"

definition entry :: "string option \<Rightarrow> string option \<Rightarrow> history_entry" where
  "entry d p =
     \<lparr>entry_title = None, entry_doi = d, entry_pmid = p, entry_journal = None,
      entry_date_selected = None, entry_score = None, entry_rationale = None\<rparr>"

text \<open>
  The reading of claim C1: the identity key of the candidate, its DOI if present and else
  its PMID, is the DOI or the PMID of some history entry.
\<close>

definition identity_key_in_history :: "article \<Rightarrow> history_entry list \<Rightarrow> bool" where
  "identity_key_in_history a h =
     list_ex (\<lambda>e. entry_doi e = Some (article_identifier a)
                 \<or> entry_pmid e = Some (article_identifier a)) h"

text \<open>
  The reading of claim C2: keep the first record of every identity key, drop the later
  ones, keep the order.
\<close>

fun first_of_each_key :: "string set \<Rightarrow> article list \<Rightarrow> article list" where
  "first_of_each_key seen [] = []"
| "first_of_each_key seen (a # rest) =
     (if article_identifier a \<in> seen then first_of_each_key seen rest
      else a # first_of_each_key (insert (article_identifier a) seen) rest)"

text \<open>
  What the loop tests before it retains a record, in terms of the records retained so
  far: the identity key is non-empty and is neither the DOI nor the PMID of any of them.
\<close>

definition clashes_with :: "article \<Rightarrow> article \<Rightarrow> bool" where
  "clashes_with a b =
     ((truthy (doi b) \<and> article_identifier a = doi_or_empty b)
      \<or> (pmid b \<noteq> [] \<and> article_identifier a = pmid b))"

definition retainable :: "article list \<Rightarrow> article \<Rightarrow> bool" where
  "retainable kept a = (article_identifier a \<noteq> [] \<and> \<not> list_ex (clashes_with a) kept)"

text \<open>The contents of \<open>seen_dois\<close> and \<open>seen_pmids\<close> once the records \<open>kept\<close> are retained.\<close>

definition seen_dois_of :: "article list \<Rightarrow> string set" where
  "seen_dois_of kept = {doi_or_empty b | b. b \<in> set kept \<and> truthy (doi b)}"

definition seen_pmids_of :: "article list \<Rightarrow> string set" where
  "seen_pmids_of kept = {pmid b | b. b \<in> set kept \<and> pmid b \<noteq> []}"


section \<open>Step 2: sectioning and excerpts (\<open>text_clean.py\<close>)\<close>

text \<open>\<open>text.split('\n')\<close> and, below, \<open>text.split('\n\n')\<close>: the pieces between the
  occurrences of the separator, found from left to right without overlap.\<close>

fun split_char :: "char \<Rightarrow> string \<Rightarrow> string list" where
  "split_char sep [] = [[]]"
| "split_char sep (c # cs) =
     (if c = sep then [] # split_char sep cs
      else (case split_char sep cs of w # ws \<Rightarrow> (c # w) # ws | [] \<Rightarrow> [[c]]))"

fun split_blank_line :: "string \<Rightarrow> string list" where
  "split_blank_line [] = [[]]"
| "split_blank_line [c] = [[c]]"
| "split_blank_line (c # d # cs) =
     (if c = CHR 0x0A \<and> d = CHR 0x0A then [] # split_blank_line cs
      else (case split_blank_line (d # cs) of w # ws \<Rightarrow> (c # w) # ws | [] \<Rightarrow> [[c]]))"


definition SECTION_SYNONYMS :: "(string \<times> string list) list" where
  "SECTION_SYNONYMS =
     [(''abstract'', [''abstract'', ''summary'']),
      (''introduction'', [''introduction'', ''background'', ''rationale'', ''purpose'']),
      (''methods'', [''methods'', ''materials and methods'', ''patients and methods'',
                     ''experimental procedures'', ''study design'']),
      (''results'', [''results'', ''findings'', ''outcome'', ''outcomes'']),
      (''discussion'', [''discussion'', ''interpretation'', ''clinical implications'',
                        ''limitations'']),
      (''conclusion'', [''conclusion'', ''conclusions'', ''summary''])]"

definition KEY_TERMS :: "string list" where
  "KEY_TERMS =
     [''effect size'', ''confidence interval'', ''p-value'', ''subgroup'',
      ''blinding'', ''allocation'', ''sample size'', ''attrition'',
      ''primary outcome'', ''secondary outcome'', ''hypothesis'']"

text \<open>A sectioned text is a Python dict from section names to text.\<close>

type_synonym sectioned_text = "string \<rightharpoonup> string"

text \<open>\<open>sectioned_text.get(name, "")\<close>\<close>

definition get_section :: "sectioned_text \<Rightarrow> string \<Rightarrow> string" where
  "get_section sectioned name = (case sectioned name of Some s \<Rightarrow> s | None \<Rightarrow> [])"

definition empty_sections :: sectioned_text where
  "empty_sections =
     [''abstract'' \<mapsto> [], ''introduction'' \<mapsto> [], ''methods'' \<mapsto> [], ''results'' \<mapsto> [],
      ''discussion'' \<mapsto> [], ''conclusion'' \<mapsto> []]"


text \<open>
  \<open>re.sub(r'^\d+\s*', '', header_lower)\<close>: a leading run of digits and the white space
  after it are removed.
\<close>

definition strip_leading_number :: "string \<Rightarrow> string" where
  "strip_leading_number h =
     (case h of
        [] \<Rightarrow> []
      | c # cs \<Rightarrow> if is_digit c then dropWhile is_space (dropWhile is_digit h) else h)"

text \<open>
  \<open>re.sub(r'\s*[:\-].*$', '', header_lower)\<close>. A match starts at the leftmost position
  from which white space leads to a colon or a hyphen after which no newline follows,
  except that one final newline may end the text (\<open>.\<close> does not accept a newline, and
  \<open>$\<close> accepts the end of the text and the place before a final newline). The match is
  removed; what follows it is empty or that final newline, where no further match
  begins.
\<close>

fun strip_trailer :: "string \<Rightarrow> string" where
  "strip_trailer [] = []"
| "strip_trailer (c # cs) =
     (case dropWhile is_space (c # cs) of
        [] \<Rightarrow> c # strip_trailer cs
      | d # t \<Rightarrow>
          if (d = CHR '':'' \<or> d = CHR ''-'')
             \<and> dropWhile (\<lambda>x. x \<noteq> CHR 0x0A) t \<in> set [[], [CHR 0x0A]]
          then dropWhile (\<lambda>x. x \<noteq> CHR 0x0A) t
          else c # strip_trailer cs)"

text \<open>The loop of \<open>_map_section_headers\<close> over the items of \<open>SECTION_SYNONYMS\<close>.\<close>

fun map_section_loop :: "string \<Rightarrow> (string \<times> string list) list \<Rightarrow> string option" where
  "map_section_loop header_lower [] = None"
| "map_section_loop header_lower ((section, synonyms) # rest) =
     (if header_lower = section then Some section
      else if list_ex (\<lambda>synonym. is_in synonym header_lower \<or> is_in header_lower synonym)
                synonyms
      then Some section
      else map_section_loop header_lower rest)"

definition map_section_headers :: "string \<Rightarrow> string option" where
  "map_section_headers header =
     (let header_lower = strip (lower header);
          header_lower = strip_leading_number header_lower;
          header_lower = strip_trailer header_lower
      in map_section_loop header_lower SECTION_SYNONYMS)"

text \<open>
  The line loop of \<open>_section_html_content\<close>. Its state is the dict \<open>sections\<close>, the name
  \<open>current_section\<close> and the list \<open>current_content\<close>. The text it splits into lines comes
  from \<open>_extract_main_content\<close>, an HTML parser outside this model, and is the argument
  of \<open>section_text\<close>. The result of \<open>_identify_section_headers\<close>, which the source
  computes first, is never read.
\<close>

record sectioning =
  sections :: sectioned_text
  current_section :: string
  current_content :: "string list"

definition save_content :: "sectioning \<Rightarrow> sectioning" where
  "save_content st =
     (if current_content st \<noteq> []
      then st\<lparr>sections := (sections st)(current_section st \<mapsto>
                               strip (join [CHR 0x0A] (current_content st))),
              current_content := []\<rparr>
      else st)"

definition section_step :: "sectioning \<Rightarrow> string \<Rightarrow> sectioning" where
  "section_step st line =
     (let header_match = map_section_headers (strip line)
      in if truthy header_match
         then (save_content st)\<lparr>current_section :=
                                   (case header_match of Some s \<Rightarrow> s | None \<Rightarrow> [])\<rparr>
         else st\<lparr>current_content := current_content st @ [line]\<rparr>)"

definition initial_sectioning :: sectioning where
  "initial_sectioning =
     \<lparr>sections = empty_sections, current_section = ''abstract'', current_content = []\<rparr>"

definition section_text :: "string \<Rightarrow> sectioned_text" where
  "section_text text_content =
     sections (save_content
                 (foldl section_step initial_sectioning (split_char (CHR 0x0A) text_content)))"

text \<open>
  The line loop of \<open>_section_pdf_content\<close>: the same loop, except that every line is
  stripped first and an empty line is skipped. The text comes from \<open>_extract_pdf_text\<close>,
  which reads the pages with a PDF library outside this model.
\<close>

definition section_pdf_step :: "sectioning \<Rightarrow> string \<Rightarrow> sectioning" where
  "section_pdf_step st raw_line =
     (let line = strip raw_line
      in if line \<noteq> []
         then
           let header_match = map_section_headers line
           in if truthy header_match
              then (save_content st)\<lparr>current_section :=
                                        (case header_match of Some s \<Rightarrow> s | None \<Rightarrow> [])\<rparr>
              else st\<lparr>current_content := current_content st @ [line]\<rparr>
         else st)"

definition section_pdf_text :: "string \<Rightarrow> sectioned_text" where
  "section_pdf_text text_content =
     sections (save_content
                 (foldl section_pdf_step initial_sectioning
                    (split_char (CHR 0x0A) text_content)))"

text \<open>\<open>_estimate_tokens\<close>\<close>

definition estimate_tokens :: "string \<Rightarrow> int" where
  "estimate_tokens s = int (length s) div 4"

text \<open>
  \<open>_allocate_token_budget\<close>. The source multiplies \<open>max_tokens\<close> by a float constant and
  truncates the product with \<open>int()\<close>. The float product is the parameter \<open>fmul\<close>, which
  receives \<open>max_tokens\<close> and the decimal constant as written in the source; \<open>int()\<close>
  rounds toward zero.
\<close>

definition py_int :: "rat \<Rightarrow> int" where
  "py_int q = (if q \<ge> 0 then \<lfloor>q\<rfloor> else \<lceil>q\<rceil>)"

definition allocate_token_budget :: "(int \<Rightarrow> rat \<Rightarrow> rat) \<Rightarrow> int \<Rightarrow> (string \<rightharpoonup> int)" where
  "allocate_token_budget fmul max_tokens =
     [''abstract'' \<mapsto> py_int (fmul max_tokens (10 / 100)),
      ''introduction'' \<mapsto> py_int (fmul max_tokens (10 / 100)),
      ''methods'' \<mapsto> py_int (fmul max_tokens (25 / 100)),
      ''results'' \<mapsto> py_int (fmul max_tokens (35 / 100)),
      ''discussion'' \<mapsto> py_int (fmul max_tokens (15 / 100)),
      ''conclusion'' \<mapsto> py_int (fmul max_tokens (5 / 100))]"

text \<open>The pattern \<open>\d+\.\d+\<close>.\<close>

definition decimal_rx :: rx where
  "decimal_rx = Seq (Plus digit) (Seq (chr CHR ''.'') (Plus digit))"

text \<open>The score of a paragraph: one point per key term it contains, half a point for a
  decimal number.\<close>

definition paragraph_score :: "string list \<Rightarrow> string \<Rightarrow> rat" where
  "paragraph_score key_terms paragraph =
     of_nat (length (filter (\<lambda>term'. is_in term' (lower paragraph)) key_terms))
       + (if re_search decimal_rx paragraph then 1 / 2 else 0)"

text \<open>
  The selection loop of \<open>_select_excerpts_from_section\<close> over the scored paragraphs, with
  \<open>current_tokens\<close> and \<open>selected_paragraphs\<close> passed along. The truncated prefix ends the
  loop (\<open>break\<close>); \<open>remaining_tokens > 10\<close> makes \<open>chars_to_include\<close> positive. The
  source also computes \<open>avg_paragraph_tokens\<close>, which it never reads.
\<close>

fun select_loop ::
  "int \<Rightarrow> int \<Rightarrow> string list \<Rightarrow> (string \<times> rat) list \<Rightarrow> string list" where
  "select_loop allocated_tokens current_tokens selected_paragraphs [] = selected_paragraphs"
| "select_loop allocated_tokens current_tokens selected_paragraphs ((paragraph, s) # rest) =
     (let paragraph_tokens = estimate_tokens paragraph
      in if current_tokens + paragraph_tokens \<le> allocated_tokens
         then select_loop allocated_tokens (current_tokens + paragraph_tokens)
                (selected_paragraphs @ [paragraph]) rest
         else
           let remaining_tokens = allocated_tokens - current_tokens
           in if remaining_tokens > 10
              then selected_paragraphs @ [take (nat (remaining_tokens * 4)) paragraph @ ''...'']
              else selected_paragraphs)"

text \<open>
  The paragraphs, scored and sorted by descending score; the sort is stable, as
  \<open>list.sort(key=..., reverse=True)\<close> is.
\<close>

definition scored_paragraphs :: "string list \<Rightarrow> string \<Rightarrow> (string \<times> rat) list" where
  "scored_paragraphs key_terms section_text' =
     sort_key (\<lambda>x. - snd x)
       (map (\<lambda>paragraph. (paragraph, paragraph_score key_terms paragraph))
          (split_blank_line section_text'))"

definition selected_paragraphs_of :: "string \<Rightarrow> int \<Rightarrow> string list \<Rightarrow> string list" where
  "selected_paragraphs_of section_text' allocated_tokens key_terms =
     select_loop allocated_tokens 0 [] (scored_paragraphs key_terms section_text')"

definition select_excerpts_from_section :: "string \<Rightarrow> int \<Rightarrow> string list \<Rightarrow> string" where
  "select_excerpts_from_section section_text' allocated_tokens key_terms =
     (if section_text' = [] then []
      else join [CHR 0x0A, CHR 0x0A]
             (selected_paragraphs_of section_text' allocated_tokens key_terms))"

text \<open>
  \<open>select_excerpts_for_prompt\<close>: the six keys start as empty strings; a key of the input
  that is also a key of the allocation gets its excerpt.
\<close>

definition select_excerpts_for_prompt ::
  "(int \<Rightarrow> rat \<Rightarrow> rat) \<Rightarrow> sectioned_text \<Rightarrow> int \<Rightarrow> sectioned_text" where
  "select_excerpts_for_prompt fmul sectioned max_tokens =
     (\<lambda>section_name.
        case allocate_token_budget fmul max_tokens section_name of
          None \<Rightarrow> None
        | Some allocated_tokens \<Rightarrow>
            (case sectioned section_name of
               None \<Rightarrow> Some []
             | Some section_text' \<Rightarrow>
                 Some (select_excerpts_from_section section_text' allocated_tokens KEY_TERMS)))"

subsection \<open>Notions used in the statements\<close>

text \<open>The header after the normalisation of \<open>_map_section_headers\<close>.\<close>

definition normalised_header :: "string \<Rightarrow> string" where
  "normalised_header header = strip_trailer (strip_leading_number (strip (lower header)))"

text \<open>
  The text of a document whose methods section is followed by a line that holds only
  the page number.
\<close>

definition page_number_text :: string where
  "page_number_text = join [CHR 0x0A] [''Methods'', ''We did.'', ''12'', ''late'']"

text \<open>A section of eight paragraphs of three characters, separated by blank lines.\<close>

definition eight_short_paragraphs :: string where
  "eight_short_paragraphs =
     join [CHR 0x0A, CHR 0x0A]
       [''abc'', ''abc'', ''abc'', ''abc'', ''abc'', ''abc'', ''abc'', ''abc'']"

text \<open>
  The exact product. The float product agrees with it where it is used below: 40 times
  0.05 is 2.0 in binary floating point as well.
\<close>

definition exact_product :: "int \<Rightarrow> rat \<Rightarrow> rat" where
  "exact_product n c = of_int n * c"


section \<open>Step 2: structured red flags (\<open>analyze.py\<close>)\<close>

text \<open>
  An \<open>ArticleCard\<close> is a dict whose keys may be missing, so every field is optional:
  \<open>None\<close> stands for a missing key and, in the fields that the source declares
  \<open>Optional\<close>, for a JSON \<open>null\<close> as well. Values have their declared types. The
  numbers of an effect estimate are Python floats; a rational stands for the exact value
  of a float.
\<close>

record effect_estimate =
  ee_measure :: "string option"
  ee_value :: "rat option"
  ee_ci :: "rat list option"
  ee_p :: "rat option"

record article_card =
  card_title :: "string option"
  card_journal :: "string option"
  card_date :: "string option"
  card_doi :: "string option"
  card_pmid :: "string option"
  card_score :: "rat option"
  card_rationale :: "string option"
  card_design :: "string option"
  card_population :: "string option"
  card_sample_size :: "int option"
  card_intervention :: "string option"
  card_comparator :: "string option"
  card_primary_outcome :: "string option"
  card_key_result_text :: "string option"
  card_effect_estimate :: "effect_estimate option"
  card_centers :: "string option"
  card_blinding :: "string option"
  card_allocation :: "string option"
  card_funding :: "string option"
  card_conflicts :: "string option"
  card_language :: "string option"

text \<open>\<open>d.get(key, '')\<close> on a string field.\<close>

definition get_or_empty :: "string option \<Rightarrow> string" where
  "get_or_empty v = (case v of Some s \<Rightarrow> s | None \<Rightarrow> [])"

text \<open>
  Floating-point arithmetic rounds, so the operations of the source on floats are
  parameters: the difference and the quotient of two floats as Python computes them, and
  the float that a decimal literal of the source denotes. The absolute value of a float
  and the comparison of two floats are exact.
\<close>

record float_arith =
  float_sub :: "rat \<Rightarrow> rat \<Rightarrow> rat"
  float_div :: "rat \<Rightarrow> rat \<Rightarrow> rat"
  float_literal :: "rat \<Rightarrow> rat"

text \<open>
  \<open>_detect_red_flags\<close> applies seven rules in turn, each of which may append one flag to
  \<open>red_flags\<close>. Every rule is a function from the list so far to the list after it.
\<close>

text \<open>Underpowered signal: \<open>sample_size\<close> is present and below 100.\<close>

definition underpowered_rule :: "article_card \<Rightarrow> string list \<Rightarrow> string list" where
  "underpowered_rule article red_flags =
     (case card_sample_size article of
        None \<Rightarrow> red_flags
      | Some n \<Rightarrow>
          if n < 100
          then red_flags @ [''Underpowered signal: sample size < 100 for superiority trial'']
          else red_flags)"

text \<open>
  Imprecise effect. The estimate must have the keys \<open>value\<close> and \<open>ci\<close>, which makes the
  dict non-empty and therefore true, and \<open>ci\<close> must have two elements.
\<close>

definition imprecise_rule ::
  "float_arith \<Rightarrow> article_card \<Rightarrow> string list \<Rightarrow> string list" where
  "imprecise_rule fl article red_flags =
     (case card_effect_estimate article of
        None \<Rightarrow> red_flags
      | Some effect_estimate \<Rightarrow>
          (case ee_value effect_estimate of
             None \<Rightarrow> red_flags
           | Some point_estimate \<Rightarrow>
               (case ee_ci effect_estimate of
                  None \<Rightarrow> red_flags
                | Some ci \<Rightarrow>
                    if length ci = 2
                    then
                      let ci_width = \<bar>float_sub fl (ci ! 1) (ci ! 0)\<bar>
                      in if point_estimate \<noteq> 0
                            \<and> \<bar>float_div fl ci_width point_estimate\<bar> > 1
                         then red_flags @ [''Imprecise effect: wide confidence interval'']
                         else red_flags
                    else red_flags)))"

text \<open>Borderline p: \<open>p\<close> is present, not \<open>None\<close>, and lies in [0.045, 0.06].\<close>

definition borderline_p_rule ::
  "float_arith \<Rightarrow> article_card \<Rightarrow> string list \<Rightarrow> string list" where
  "borderline_p_rule fl article red_flags =
     (case card_effect_estimate article of
        None \<Rightarrow> red_flags
      | Some effect_estimate \<Rightarrow>
          (case ee_p effect_estimate of
             None \<Rightarrow> red_flags
           | Some p \<Rightarrow>
               if float_literal fl (45 / 1000) \<le> p \<and> p \<le> float_literal fl (6 / 100)
               then red_flags @ [''Borderline p-value: fragile significance'']
               else red_flags))"

text \<open>Multiplicity risk: the primary outcome is missing, empty or blank.\<close>

definition multiplicity_rule :: "article_card \<Rightarrow> string list \<Rightarrow> string list" where
  "multiplicity_rule article red_flags =
     (if \<not> truthy (card_primary_outcome article)
         \<or> strip (get_or_empty (card_primary_outcome article)) = []
      then red_flags @ [''Multiplicity/selective reporting risk: primary outcome unclear'']
      else red_flags)"

text \<open>Design opacity: allocation concealment or blinding is missing.\<close>

definition design_opacity_rule :: "article_card \<Rightarrow> string list \<Rightarrow> string list" where
  "design_opacity_rule article red_flags =
     (if \<not> truthy (card_allocation article) \<or> \<not> truthy (card_blinding article)
      then
        let issues = [];
            issues = (if \<not> truthy (card_allocation article)
                      then issues @ [''allocation concealment''] else issues);
            issues = (if \<not> truthy (card_blinding article)
                      then issues @ [''blinding''] else issues)
        in if issues \<noteq> []
           then red_flags @ [''Design opacity: missing '' @ join '', '' issues]
           else red_flags
      else red_flags)"

text \<open>External validity: a narrow population.\<close>

definition external_validity_rule :: "article_card \<Rightarrow> string list \<Rightarrow> string list" where
  "external_validity_rule article red_flags =
     (let population = lower (get_or_empty (card_population article));
          centers = (if truthy (card_centers article)
                     then lower (get_or_empty (card_centers article)) else [])
      in if (is_in ''single'' centers \<or> is_in ''single'' population)
            \<and> is_in ''specific'' population
         then red_flags @ [''External validity concern: narrow population'']
         else red_flags)"

text \<open>Funding: industry or commercial funding is declared.\<close>

definition funding_rule :: "article_card \<Rightarrow> string list \<Rightarrow> string list" where
  "funding_rule article red_flags =
     (let funding = (if truthy (card_funding article)
                     then lower (get_or_empty (card_funding article)) else [])
      in if is_in ''industry'' funding \<or> is_in ''commercial'' funding
         then red_flags @ [''Potential bias: industry funding declared'']
         else red_flags)"

definition detect_red_flags :: "float_arith \<Rightarrow> article_card \<Rightarrow> string list" where
  "detect_red_flags fl article =
     (let red_flags = [];
          red_flags = underpowered_rule article red_flags;
          red_flags = imprecise_rule fl article red_flags;
          red_flags = borderline_p_rule fl article red_flags;
          red_flags = multiplicity_rule article red_flags;
          red_flags = design_opacity_rule article red_flags;
          red_flags = external_validity_rule article red_flags;
          red_flags = funding_rule article red_flags
      in red_flags)"

text \<open>
  The reading of claim C6: half the absolute difference of the two bounds exceeds the
  absolute value of the estimate, here in exact arithmetic.
\<close>

definition ci_half_width_exceeds :: "rat \<Rightarrow> rat \<Rightarrow> rat \<Rightarrow> bool" where
  "ci_half_width_exceeds v lo hi = (\<bar>hi - lo\<bar> / 2 > \<bar>v\<bar>)"

text \<open>
  Exact arithmetic. Binary floating point agrees with it on the operands it is given
  below: 1.5 - 0 is 1.5, 1.5 / 1 is 1.5 and 1 - (-1) is 2 without rounding.
\<close>

definition exact_arith :: float_arith where
  "exact_arith =
     \<lparr>float_sub = (\<lambda>a b. a - b), float_div = (\<lambda>a b. a / b), float_literal = (\<lambda>c. c)\<rparr>"

text \<open>A record that carries nothing but an effect estimate with a value and an interval.\<close>

definition card_with_estimate :: "rat \<Rightarrow> rat list \<Rightarrow> article_card" where
  "card_with_estimate v ci =
     \<lparr>card_title = None, card_journal = None, card_date = None, card_doi = None,
      card_pmid = None, card_score = None, card_rationale = None, card_design = None,
      card_population = None, card_sample_size = None, card_intervention = None,
      card_comparator = None, card_primary_outcome = None, card_key_result_text = None,
      card_effect_estimate =
        Some \<lparr>ee_measure = None, ee_value = Some v, ee_ci = Some ci, ee_p = None\<rparr>,
      card_centers = None, card_blinding = None, card_allocation = None,
      card_funding = None, card_conflicts = None, card_language = None\<rparr>"


section \<open>Step 2: full-text retrieval (\<open>fetch_fulltext.py\<close>)\<close>

subsection \<open>Parsed JSON\<close>

text \<open>
  What \<open>response.json()\<close> returns. \<open>JNull\<close> is Python's \<open>None\<close>; an object is the list of
  its items, with distinct keys.
\<close>

datatype json =
  JNull | JBool bool | JNum rat | JStr string | JArr "json list" | JObj "(string \<times> json) list"

fun json_truthy :: "json \<Rightarrow> bool" where
  "json_truthy JNull = False"
| "json_truthy (JBool b) = b"
| "json_truthy (JNum n) = (n \<noteq> 0)"
| "json_truthy (JStr s) = (s \<noteq> [])"
| "json_truthy (JArr xs) = (xs \<noteq> [])"
| "json_truthy (JObj items) = (items \<noteq> [])"

text \<open>
  The operations below raise on a value of the wrong type, and every use of them in the
  source sits in a \<open>try\<close> whose \<open>except Exception\<close> clause gives up the stage. The raise is
  the result \<open>None\<close>.
\<close>

text \<open>\<open>d.get(key, fallback)\<close>: an \<open>AttributeError\<close> unless \<open>d\<close> is a dict.\<close>

fun py_get :: "json \<Rightarrow> string \<Rightarrow> json \<Rightarrow> json option" where
  "py_get (JObj items) key fallback =
     Some (case map_of items key of Some v \<Rightarrow> v | None \<Rightarrow> fallback)"
| "py_get d key fallback = None"

text \<open>\<open>x[0]\<close>: the first element of a list, the first character of a string; it raises on
  everything else, an empty list and a dict included (the keys of a parsed object are
  strings).\<close>

fun py_first :: "json \<Rightarrow> json option" where
  "py_first (JArr (y # ys)) = Some y"
| "py_first (JStr (c # cs)) = Some (JStr [c])"
| "py_first x = None"

text \<open>\<open>for link in x\<close>: the elements of a list, the keys of a dict, the characters of a
  string; a \<open>TypeError\<close> on everything else.\<close>

fun py_iter :: "json \<Rightarrow> json list option" where
  "py_iter (JArr ys) = Some ys"
| "py_iter (JObj items) = Some (map (\<lambda>item. JStr (fst item)) items)"
| "py_iter (JStr s) = Some (map (\<lambda>c. JStr [c]) s)"
| "py_iter x = None"

definition opt_json :: "string option \<Rightarrow> json" where
  "opt_json v = (case v of None \<Rightarrow> JNull | Some s \<Rightarrow> JStr s)"

subsection \<open>The network\<close>

text \<open>
  A URL is kept as the parts of the f-string that builds it: literal text and
  interpolated values, which Python renders with \<open>str()\<close>. A URL read from a response is
  a single interpolated value.
\<close>

datatype upart = Text string | Interp json

type_synonym url = "upart list"

text \<open>
  The attributes of a \<open>requests.Response\<close> that the source reads: the status code, the
  \<open>content-type\<close> header (the empty string when absent), the body as bytes and as text,
  and the result of \<open>response.json()\<close>, \<open>None\<close> when it raises.
\<close>

record response =
  resp_status_code :: int
  resp_content_type :: string
  resp_content :: string
  resp_text :: string
  resp_json :: "json option"

text \<open>The settings dict; \<open>None\<close> is a missing key.\<close>

record settings =
  fulltext_override :: "string option"
  allow_network :: "bool option"
  unpaywall_email :: "string option"
  abstract_only_ok :: "bool option"
  timeout_seconds :: "rat option"
  user_agent :: "string option"

text \<open>
  The network is a parameter: what \<open>requests.get\<close> answers to a URL under the given
  settings (timeout and user agent), given the URLs requested so far, with \<open>None\<close> when
  it raises. The requests made are logged in order; the log is the state the retrieval
  functions pass along.
\<close>

type_synonym net = "url list \<Rightarrow> settings \<Rightarrow> url \<Rightarrow> response option"

text \<open>\<open>_make_request\<close>\<close>

definition make_request ::
  "net \<Rightarrow> settings \<Rightarrow> url \<Rightarrow> string option \<Rightarrow> url list \<Rightarrow> response option \<times> url list" where
  "make_request network settings' u expected_content_type sent =
     (case network sent settings' u of
        None \<Rightarrow> (None, sent @ [u])
      | Some response' \<Rightarrow>
          if truthy expected_content_type
             \<and> \<not> is_in (case expected_content_type of Some t \<Rightarrow> t | None \<Rightarrow> [])
                     (resp_content_type response')
          then (None, sent @ [u])
          else (Some response', sent @ [u]))"

text \<open>
  \<open>response and response.status_code == 200\<close>. A \<open>Response\<close> is true when its status is
  below 400, which status 200 is.
\<close>

definition on_200 :: "response option \<Rightarrow> response option" where
  "on_200 r = (case r of
                 None \<Rightarrow> None
               | Some response' \<Rightarrow> if resp_status_code response' = 200 then r else None)"

subsection \<open>Results\<close>

text \<open>A \<open>FullTextResult\<close> is a dict whose keys other than \<open>route\<close> may be missing.\<close>

record fulltext_result =
  ft_route :: string
  ft_pmcid :: "json option"
  ft_oa_pdf_url :: "url option"
  ft_publisher_url :: "url option"
  ft_html :: "string option"
  ft_pdf_bytes :: "string option"
  ft_abstract :: "json option"

definition route_only :: "string \<Rightarrow> fulltext_result" where
  "route_only r =
     \<lparr>ft_route = r, ft_pmcid = None, ft_oa_pdf_url = None, ft_publisher_url = None,
      ft_html = None, ft_pdf_bytes = None, ft_abstract = None\<rparr>"

subsection \<open>Europe PMC look-ups\<close>

definition europe_pmc_search_url :: url where
  "europe_pmc_search_url = [Text ''https://www.ebi.ac.uk/europepmc/webservices/rest/search'']"

text \<open>
  The lines shared by \<open>_get_pmcid_from_identifiers\<close>, \<open>_fetch_europe_pmc\<close> and
  \<open>_fetch_abstract\<close>: parse the body, read \<open>resultList.result\<close>, and take its first
  element when it is true. The outer \<open>None\<close> is a raise, \<open>Some None\<close> an empty result.
\<close>

definition first_result :: "response \<Rightarrow> json option option" where
  "first_result response' =
     do {
       data \<leftarrow> resp_json response';
       result_list \<leftarrow> py_get data ''resultList'' (JObj []);
       results \<leftarrow> py_get result_list ''result'' (JArr []);
       if json_truthy results
       then do { result \<leftarrow> py_first results; Some (Some result) }
       else Some None
     }"

text \<open>
  \<open>_get_pmcid_from_identifiers\<close>. The query string is built and never sent, so only its
  guard is left: without a DOI and a PMID nothing is requested. The result is
  \<open>result.get("pmcid")\<close>, or \<open>None\<close>.
\<close>

definition get_pmcid_from_identifiers ::
  "net \<Rightarrow> settings \<Rightarrow> string option \<Rightarrow> string option \<Rightarrow> url list \<Rightarrow> json \<times> url list" where
  "get_pmcid_from_identifiers network settings' doi' pmid' sent =
     (if \<not> truthy doi' \<and> \<not> truthy pmid' then (JNull, sent)
      else
        case make_request network settings' europe_pmc_search_url None sent of
          (response', sent1) \<Rightarrow>
            (case on_200 response' of
               None \<Rightarrow> (JNull, sent1)
             | Some r \<Rightarrow>
                 (case first_result r of
                    Some (Some result) \<Rightarrow>
                      (case py_get result ''pmcid'' JNull of
                         Some v \<Rightarrow> (v, sent1)
                       | None \<Rightarrow> (JNull, sent1))
                  | _ \<Rightarrow> (JNull, sent1))))"

subsection \<open>The repository route\<close>

definition pmc_pdf_url :: "json \<Rightarrow> url" where
  "pmc_pdf_url pmcid =
     [Text ''https://www.ncbi.nlm.nih.gov/pmc/articles/'', Interp pmcid, Text ''/pdf/'']"

definition pmc_html_url :: "json \<Rightarrow> url" where
  "pmc_html_url pmcid =
     [Text ''https://www.ncbi.nlm.nih.gov/pmc/articles/'', Interp pmcid, Text ''/'']"

text \<open>The block \<open>if pmcid:\<close> of \<open>_fetch_pmc\<close>: the PDF first, then the HTML page.\<close>

definition pmc_direct_access ::
  "net \<Rightarrow> settings \<Rightarrow> json \<Rightarrow> url list \<Rightarrow> fulltext_result option \<times> url list" where
  "pmc_direct_access network settings' pmcid sent =
     (if json_truthy pmcid
      then
        case make_request network settings' (pmc_pdf_url pmcid) (Some ''application/pdf'') sent of
          (response', sent1) \<Rightarrow>
            (case on_200 response' of
               Some r \<Rightarrow>
                 (Some ((route_only ''pmc'')
                          \<lparr>ft_pmcid := Some pmcid, ft_oa_pdf_url := Some (pmc_pdf_url pmcid),
                           ft_pdf_bytes := Some (resp_content r)\<rparr>), sent1)
             | None \<Rightarrow>
                 (case make_request network settings' (pmc_html_url pmcid) (Some ''text/html'')
                         sent1 of
                    (response2, sent2) \<Rightarrow>
                      (case on_200 response2 of
                         Some r \<Rightarrow>
                           (Some ((route_only ''pmc'')
                                    \<lparr>ft_pmcid := Some pmcid, ft_html := Some (resp_text r)\<rparr>),
                            sent2)
                       | None \<Rightarrow> (None, sent2))))
      else (None, sent))"

text \<open>
  \<open>_fetch_pmc\<close>. After the direct access, whether or not a PMCID was given, the PMCID is
  looked up from the identifiers, and when one is found the function calls itself with
  it. Python bounds the nesting of calls: \<open>depth\<close> is the number of nested activations of
  \<open>_fetch_pmc\<close> that the interpreter's recursion limit still allows below this one. The
  call beyond the limit raises \<open>RecursionError\<close>, which the \<open>except Exception\<close> clause
  around it turns into the result \<open>None\<close>.
\<close>

fun fetch_pmc ::
  "nat \<Rightarrow> net \<Rightarrow> settings \<Rightarrow> string option \<Rightarrow> string option \<Rightarrow> json \<Rightarrow> url list
     \<Rightarrow> fulltext_result option \<times> url list" where
  "fetch_pmc depth network settings' doi' pmid' pmcid sent =
     (case pmc_direct_access network settings' pmcid sent of
        (Some result, sent1) \<Rightarrow> (Some result, sent1)
      | (None, sent1) \<Rightarrow>
          (case get_pmcid_from_identifiers network settings' doi' pmid' sent1 of
             (pmcid_from_identifiers, sent2) \<Rightarrow>
               if json_truthy pmcid_from_identifiers
               then (case depth of
                       0 \<Rightarrow> (None, sent2)
                     | Suc d \<Rightarrow>
                         fetch_pmc d network settings' doi' pmid' pmcid_from_identifiers sent2)
               else (None, sent2)))"

declare fetch_pmc.simps [simp del]

subsection \<open>The open-access route\<close>

text \<open>
  \<open>_fetch_unpaywall\<close>: the best open-access location, its PDF first, then its page. The
  request parameters with the e-mail address are built and never sent.
\<close>

definition fetch_unpaywall ::
  "net \<Rightarrow> settings \<Rightarrow> string option \<Rightarrow> url list \<Rightarrow> fulltext_result option \<times> url list" where
  "fetch_unpaywall network settings' doi' sent =
     (if \<not> truthy (unpaywall_email settings') then (None, sent)
      else
        case make_request network settings'
               [Text ''https://api.unpaywall.org/v2/'', Interp (opt_json doi')] None sent of
          (response', sent1) \<Rightarrow>
            (case on_200 response' of
               None \<Rightarrow> (None, sent1)
             | Some r \<Rightarrow>
                 (case do { data \<leftarrow> resp_json r; py_get data ''best_oa_location'' JNull } of
                    None \<Rightarrow> (None, sent1)
                  | Some best_oa_location \<Rightarrow>
                      if \<not> json_truthy best_oa_location then (None, sent1)
                      else
                        (case py_get best_oa_location ''pdf_url'' JNull of
                           None \<Rightarrow> (None, sent1)
                         | Some pdf_url \<Rightarrow>
                             (case (if json_truthy pdf_url
                                    then
                                      case make_request network settings' [Interp pdf_url]
                                             (Some ''application/pdf'') sent1 of
                                        (pdf_response, sent2) \<Rightarrow>
                                          (map_option
                                             (\<lambda>p. (route_only ''unpaywall'')
                                                     \<lparr>ft_oa_pdf_url := Some [Interp pdf_url],
                                                      ft_pdf_bytes := Some (resp_content p)\<rparr>)
                                             (on_200 pdf_response), sent2)
                                    else (None, sent1)) of
                                (Some result, sent2) \<Rightarrow> (Some result, sent2)
                              | (None, sent2) \<Rightarrow>
                                  (case py_get best_oa_location ''url'' JNull of
                                     None \<Rightarrow> (None, sent2)
                                   | Some page_url \<Rightarrow>
                                       if json_truthy page_url
                                       then
                                         case make_request network settings' [Interp page_url]
                                                (Some ''text/html'') sent2 of
                                           (html_response, sent3) \<Rightarrow>
                                             (map_option
                                                (\<lambda>h. (route_only ''unpaywall'')
                                                        \<lparr>ft_publisher_url := Some [Interp page_url],
                                                         ft_html := Some (resp_text h)\<rparr>)
                                                (on_200 html_response), sent3)
                                       else (None, sent2)))))))"

subsection \<open>The metadata-search route\<close>

text \<open>
  The loop of \<open>_fetch_europe_pmc\<close> over the full-text links. It ends by returning a
  result, by a raise (a link that is not a dict), or at the end of the list.
\<close>

datatype loop_exit = LoopRaised | LoopDone | LoopReturn fulltext_result

fun links_loop ::
  "net \<Rightarrow> settings \<Rightarrow> json \<Rightarrow> json list \<Rightarrow> url list \<Rightarrow> loop_exit \<times> url list" where
  "links_loop network settings' pmcid [] sent = (LoopDone, sent)"
| "links_loop network settings' pmcid (link # links) sent =
     (case py_get link ''documentType'' JNull of
        None \<Rightarrow> (LoopRaised, sent)
      | Some doc_type \<Rightarrow>
          if doc_type = JStr ''pdf''
          then
            (case py_get link ''url'' JNull of
               None \<Rightarrow> (LoopRaised, sent)
             | Some pdf_url \<Rightarrow>
                 if json_truthy pdf_url
                 then
                   case make_request network settings' [Interp pdf_url]
                          (Some ''application/pdf'') sent of
                     (pdf_response, sent1) \<Rightarrow>
                       (case on_200 pdf_response of
                          Some p \<Rightarrow>
                            (LoopReturn ((route_only ''europempc'')
                                           \<lparr>ft_pmcid := Some pmcid,
                                            ft_oa_pdf_url := Some [Interp pdf_url],
                                            ft_pdf_bytes := Some (resp_content p)\<rparr>), sent1)
                        | None \<Rightarrow> links_loop network settings' pmcid links sent1)
                 else links_loop network settings' pmcid links sent)
          else if doc_type = JStr ''html''
          then
            (case py_get link ''url'' JNull of
               None \<Rightarrow> (LoopRaised, sent)
             | Some html_url \<Rightarrow>
                 if json_truthy html_url
                 then
                   case make_request network settings' [Interp html_url]
                          (Some ''text/html'') sent of
                     (html_response, sent1) \<Rightarrow>
                       (case on_200 html_response of
                          Some h \<Rightarrow>
                            (LoopReturn ((route_only ''europempc'')
                                           \<lparr>ft_pmcid := Some pmcid,
                                            ft_html := Some (resp_text h)\<rparr>), sent1)
                        | None \<Rightarrow> links_loop network settings' pmcid links sent1)
                 else links_loop network settings' pmcid links sent)
          else links_loop network settings' pmcid links sent)"

text \<open>
  What \<open>_fetch_europe_pmc\<close> reads from the first result before the loop: the PMCID and
  the list of links to iterate over. \<open>None\<close> is a raise.
\<close>

definition result_links :: "json \<Rightarrow> (json \<times> json list) option" where
  "result_links result =
     do {
       pmcid \<leftarrow> py_get result ''pmcid'' JNull;
       url_list \<leftarrow> py_get result ''fullTextUrlList'' (JObj []);
       full_text_links \<leftarrow> py_get url_list ''fullTextUrl'' (JArr []);
       links \<leftarrow> py_iter full_text_links;
       Some (pmcid, links)
     }"

text \<open>
  \<open>_fetch_europe_pmc\<close>. Its parameter \<open>depth\<close> is the one that \<open>resolve_fulltext\<close> gives to
  its own call of \<open>_fetch_pmc\<close>. The call of \<open>_fetch_pmc\<close> made here lies one frame
  deeper than that one, so it has one activation less below it, and with no room left it
  raises \<open>RecursionError\<close>, which the \<open>except\<close> clause of this function swallows.
\<close>

definition fetch_europe_pmc ::
  "nat \<Rightarrow> net \<Rightarrow> settings \<Rightarrow> string option \<Rightarrow> string option \<Rightarrow> url list
     \<Rightarrow> fulltext_result option \<times> url list" where
  "fetch_europe_pmc depth network settings' doi' pmid' sent =
     (if \<not> truthy doi' \<and> \<not> truthy pmid' then (None, sent)
      else
        case make_request network settings' europe_pmc_search_url None sent of
          (response', sent1) \<Rightarrow>
            (case on_200 response' of
               None \<Rightarrow> (None, sent1)
             | Some r \<Rightarrow>
                 (case first_result r of
                    Some (Some result) \<Rightarrow>
                      (case result_links result of
                         None \<Rightarrow> (None, sent1)
                       | Some (pmcid, links) \<Rightarrow>
                           (case links_loop network settings' pmcid links sent1 of
                              (LoopReturn found, sent2) \<Rightarrow> (Some found, sent2)
                            | (LoopRaised, sent2) \<Rightarrow> (None, sent2)
                            | (LoopDone, sent2) \<Rightarrow>
                                if json_truthy pmcid
                                then (case depth of
                                        0 \<Rightarrow> (None, sent2)
                                      | Suc d \<Rightarrow>
                                          fetch_pmc d network settings' doi' pmid' pmcid sent2)
                                else (None, sent2)))
                  | _ \<Rightarrow> (None, sent1))))"

subsection \<open>The registry route and the abstract\<close>

text \<open>\<open>_fetch_crossref\<close>\<close>

definition fetch_crossref ::
  "net \<Rightarrow> settings \<Rightarrow> string option \<Rightarrow> url list \<Rightarrow> fulltext_result option \<times> url list" where
  "fetch_crossref network settings' doi' sent =
     (case make_request network settings'
             [Text ''https://api.crossref.org/works/'', Interp (opt_json doi')] None sent of
        (response', sent1) \<Rightarrow>
          (case on_200 response' of
             None \<Rightarrow> (None, sent1)
           | Some r \<Rightarrow>
               (case do { data \<leftarrow> resp_json r;
                          message \<leftarrow> py_get data ''message'' (JObj []);
                          py_get message ''url'' JNull } of
                  None \<Rightarrow> (None, sent1)
                | Some publisher_url \<Rightarrow>
                    if json_truthy publisher_url
                    then
                      case make_request network settings' [Interp publisher_url]
                             (Some ''text/html'') sent1 of
                        (html_response, sent2) \<Rightarrow>
                          (case on_200 html_response of
                             None \<Rightarrow> (None, sent2)
                           | Some h \<Rightarrow>
                               if is_in ''application/pdf'' (resp_content_type h)
                               then (Some ((route_only ''publisher'')
                                             \<lparr>ft_publisher_url := Some [Interp publisher_url],
                                              ft_pdf_bytes := Some (resp_content h)\<rparr>), sent2)
                               else (Some ((route_only ''publisher'')
                                             \<lparr>ft_publisher_url := Some [Interp publisher_url],
                                              ft_html := Some (resp_text h)\<rparr>), sent2))
                    else (None, sent1))))"

text \<open>\<open>_fetch_abstract\<close>\<close>

definition fetch_abstract ::
  "net \<Rightarrow> settings \<Rightarrow> string option \<Rightarrow> string option \<Rightarrow> url list
     \<Rightarrow> fulltext_result option \<times> url list" where
  "fetch_abstract network settings' doi' pmid' sent =
     (if \<not> truthy doi' \<and> \<not> truthy pmid' then (None, sent)
      else
        case make_request network settings' europe_pmc_search_url None sent of
          (response', sent1) \<Rightarrow>
            (case on_200 response' of
               None \<Rightarrow> (None, sent1)
             | Some r \<Rightarrow>
                 (case first_result r of
                    Some (Some result) \<Rightarrow>
                      (case py_get result ''abstractText'' JNull of
                         None \<Rightarrow> (None, sent1)
                       | Some abstract' \<Rightarrow>
                           if json_truthy abstract'
                           then (Some ((route_only ''abstract'')\<lparr>ft_abstract := Some abstract'\<rparr>),
                                 sent1)
                           else (None, sent1))
                  | _ \<Rightarrow> (None, sent1))))"

subsection \<open>The resolver\<close>

text \<open>
  \<open>resolve_fulltext\<close>. A stage that is skipped returns \<open>None\<close> and leaves the log as it
  is; \<open>first_success\<close> runs the next stage only when the one before returned \<open>None\<close>.
\<close>

definition first_success ::
  "fulltext_result option \<times> url list
     \<Rightarrow> (url list \<Rightarrow> fulltext_result option \<times> url list)
     \<Rightarrow> fulltext_result option \<times> url list" where
  "first_success outcome next_stage =
     (case outcome of
        (Some result, sent) \<Rightarrow> (Some result, sent)
      | (None, sent) \<Rightarrow> next_stage sent)"

definition resolve_fulltext ::
  "nat \<Rightarrow> net \<Rightarrow> settings \<Rightarrow> string option \<Rightarrow> string option \<Rightarrow> url list
     \<Rightarrow> fulltext_result option \<times> url list" where
  "resolve_fulltext depth network settings' doi' pmid' sent =
     (if truthy (fulltext_override settings')
      then (Some ((route_only ''override'')\<lparr>ft_html := fulltext_override settings'\<rparr>), sent)
      else if \<not> (case allow_network settings' of None \<Rightarrow> True | Some b \<Rightarrow> b)
      then (None, sent)
      else
        first_success (fetch_pmc depth network settings' doi' pmid' JNull sent) (\<lambda>sent1.
        first_success (if truthy (unpaywall_email settings')
                       then fetch_unpaywall network settings' doi' sent1
                       else (None, sent1)) (\<lambda>sent2.
        first_success (fetch_europe_pmc depth network settings' doi' pmid' sent2) (\<lambda>sent3.
        first_success (if truthy doi'
                       then fetch_crossref network settings' doi' sent3
                       else (None, sent3)) (\<lambda>sent4.
        first_success (if (case abstract_only_ok settings' of None \<Rightarrow> True | Some b \<Rightarrow> b)
                       then fetch_abstract network settings' doi' pmid' sent4
                       else (None, sent4)) (\<lambda>sent5. (None, sent5)))))))"

subsection \<open>A network on which the repository refuses\<close>

text \<open>
  The search service answers every request with status 200 and one result whose PMCID is
  \<open>PMC1\<close>; every other address answers 403 with an HTML page.
\<close>

definition search_response :: response where
  "search_response =
     \<lparr>resp_status_code = 200, resp_content_type = ''application/json'', resp_content = [],
      resp_text = [],
      resp_json = Some (JObj [(''resultList'',
                         JObj [(''result'', JArr [JObj [(''pmcid'', JStr ''PMC1'')]])])])\<rparr>"

definition forbidden_response :: response where
  "forbidden_response =
     \<lparr>resp_status_code = 403, resp_content_type = ''text/html'', resp_content = [],
      resp_text = [], resp_json = None\<rparr>"

definition refusing_network :: net where
  "refusing_network sent settings' u =
     (if u = europe_pmc_search_url then Some search_response else Some forbidden_response)"

definition default_settings :: settings where
  "default_settings =
     \<lparr>fulltext_override = None, allow_network = None, unpaywall_email = None,
      abstract_only_ok = None, timeout_seconds = None, user_agent = None\<rparr>"

text \<open>The three requests of one activation of \<open>_fetch_pmc\<close> that holds the PMCID \<open>PMC1\<close>.\<close>

definition refused_round :: "url list" where
  "refused_round =
     [pmc_pdf_url (JStr ''PMC1''), pmc_html_url (JStr ''PMC1''), europe_pmc_search_url]"

section \<open>Selection: proofs\<close>

lemma history_loop_iff: "history_loop a h = in_history a h"
  by (induction h) (auto simp: in_history_def matches_entry_def)

lemma previously_selected_iff: "is_article_previously_selected a h = in_history a h"
proof (cases "truthy (doi a) \<or> pmid a \<noteq> []")
  case True
  then show ?thesis
    by (auto simp: is_article_previously_selected_def history_loop_iff)
next
  case False
  then have "\<not> in_history a h"
    by (simp add: in_history_def matches_entry_def list_ex_iff)
  with False show ?thesis
    by (simp add: is_article_previously_selected_def)
qed

lemma hd_sort_key_split:
  fixes f :: "'a \<Rightarrow> 'k::linorder"
  assumes "xs \<noteq> []"
  shows "\<exists>pre post. xs = pre @ hd (sort_key f xs) # post
           \<and> (\<forall>a\<in>set pre. f (hd (sort_key f xs)) < f a)
           \<and> (\<forall>a\<in>set post. f (hd (sort_key f xs)) \<le> f a)"
  using assms
proof (induction xs)
  case Nil
  then show ?case by simp
next
  case (Cons x xs)
  show ?case
  proof (cases "xs = []")
    case True
    then show ?thesis
      by (intro exI[of _ "[]"] exI[of _ "[]"]) simp
  next
    case False
    then obtain h t where ht: "sort_key f xs = h # t"
      by (cases "sort_key f xs") (auto dest: arg_cong[where f=length])
    from Cons.IH[OF False] ht obtain pre post where
      split: "xs = pre @ h # post" and
      pre: "\<forall>a\<in>set pre. f h < f a" and post: "\<forall>a\<in>set post. f h \<le> f a"
      by auto
    show ?thesis
    proof (cases "f x \<le> f h")
      case True
      then have hd: "hd (sort_key f (x # xs)) = x" using ht by simp
      have "\<forall>a\<in>set xs. f x \<le> f a"
        using split pre post True by (auto intro: order_trans less_imp_le)
      then show ?thesis unfolding hd
        by (intro exI[of _ "[]"] exI[of _ xs]) simp
    next
      case False
      then have hd: "hd (sort_key f (x # xs)) = h" using ht by simp
      show ?thesis unfolding hd
        by (intro exI[of _ "x # pre"] exI[of _ post]) (use split pre post False in auto)
    qed
  qed
qed

lemma find_filter_hd:
  "List.find P xs = (case filter P xs of [] \<Rightarrow> None | x # _ \<Rightarrow> Some x)"
  by (induction xs) auto

lemma filter_eq_append_ConsD:
  "filter P xs = ys @ b # zs \<Longrightarrow>
     \<exists>us vs. xs = us @ b # vs \<and> filter P us = ys \<and> filter P vs = zs"
proof (induction xs arbitrary: ys)
  case Nil
  then show ?case by simp
next
  case (Cons x xs)
  show ?case
  proof (cases "P x")
    case False
    with Cons.prems have "filter P xs = ys @ b # zs" by simp
    from Cons.IH[OF this] obtain us vs where
      "xs = us @ b # vs" "filter P us = ys" "filter P vs = zs" by blast
    with False show ?thesis
      by (intro exI[of _ "x # us"] exI[of _ vs]) simp
  next
    case True
    show ?thesis
    proof (cases ys)
      case Nil
      with True Cons.prems show ?thesis
        by (intro exI[of _ "[]"] exI[of _ xs]) simp
    next
      case (Cons y ys')
      with True Cons.prems have "x = y" and "filter P xs = ys' @ b # zs" by simp_all
      from Cons.IH[OF this(2)] obtain us vs where
        "xs = us @ b # vs" "filter P us = ys'" "filter P vs = zs" by blast
      with True \<open>x = y\<close> Cons show ?thesis
        by (intro exI[of _ "x # us"] exI[of _ vs]) simp
    qed
  qed
qed

lemma find_sorted_split:
  fixes f :: "'a \<Rightarrow> 'k::linorder"
  assumes "List.find P (sort_key f xs) = Some b"
  shows "\<exists>pre post. xs = pre @ b # post \<and> P b
           \<and> (\<forall>a\<in>set pre. P a \<longrightarrow> f b < f a)
           \<and> (\<forall>a\<in>set post. P a \<longrightarrow> f b \<le> f a)"
proof -
  let ?ys = "filter P xs"
  have fs: "filter P (sort_key f xs) = sort_key f ?ys"
    by (rule filter_sort)
  from assms have ne: "sort_key f ?ys \<noteq> []" and b: "b = hd (sort_key f ?ys)"
    by (auto simp: find_filter_hd fs split: list.splits)
  from ne have "?ys \<noteq> []" by auto
  from hd_sort_key_split[OF this, of f] b obtain pre' post' where
    split': "?ys = pre' @ b # post'" and
    pre': "\<forall>a\<in>set pre'. f b < f a" and post': "\<forall>a\<in>set post'. f b \<le> f a"
    by auto
  from filter_eq_append_ConsD[OF split'] obtain us vs where
    xs: "xs = us @ b # vs" and us: "filter P us = pre'" and vs: "filter P vs = post'"
    by blast
  have Pb: "P b"
  proof -
    have "b \<in> set ?ys" using split' by simp
    then show ?thesis by simp
  qed
  have 2: "\<forall>a\<in>set us. P a \<longrightarrow> f b < f a"
    using us pre' by auto
  have 3: "\<forall>a\<in>set vs. P a \<longrightarrow> f b \<le> f a"
    using vs post' by auto
  from xs 2 3 Pb show ?thesis by blast
qed

lemma sort_by_score_Cons:
  "articles \<noteq> [] \<Longrightarrow> \<exists>top rest. sort_by_score articles = top # rest"
  by (cases "sort_by_score articles") (auto simp: sort_by_score_def dest: arg_cong[where f=length])

lemma select_found:
  assumes "articles \<noteq> []"
    and "List.find (\<lambda>a. \<not> is_article_previously_selected a history) (sort_by_score articles) = Some b"
  shows "select_top_article history articles True = Some (b, plain_rationale b)"
  using assms sort_by_score_Cons[OF assms(1)]
  by (auto simp: select_top_article_def)

lemma select_not_found:
  assumes "articles \<noteq> []"
    and "List.find (\<lambda>a. \<not> is_article_previously_selected a history) (sort_by_score articles) = None"
  shows "select_top_article history articles True =
           Some (hd (sort_by_score articles),
                 previously_selected_rationale (hd (sort_by_score articles)))"
  using assms sort_by_score_Cons[OF assms(1)]
  by (auto simp: select_top_article_def)

text \<open>
  Claim C1, as the code has it. For a non-empty candidate list and any history, the
  selector called with \<open>avoid_history = True\<close> returns the highest-scored candidate that
  matches no history entry, the earliest such candidate of the input when scores tie,
  with the plain rationale; a candidate matches an entry when its non-empty DOI equals
  the entry's DOI or its non-empty PMID equals the entry's PMID. If every candidate
  matches some entry, the selector returns the overall highest-scored candidate (again
  the earliest on a tie) with the rationale that ends in the previously-selected note.
\<close>

theorem select_top_article_avoid_history:
  assumes "articles \<noteq> []"
  shows "(\<exists>pre b post. articles = pre @ b # post \<and> \<not> in_history b history
            \<and> (\<forall>a\<in>set pre. \<not> in_history a history \<longrightarrow> score_or_zero a < score_or_zero b)
            \<and> (\<forall>a\<in>set post. \<not> in_history a history \<longrightarrow> score_or_zero a \<le> score_or_zero b)
            \<and> select_top_article history articles True = Some (b, plain_rationale b))
       \<or> ((\<forall>a\<in>set articles. in_history a history)
            \<and> (\<exists>pre b post. articles = pre @ b # post
                  \<and> (\<forall>a\<in>set pre. score_or_zero a < score_or_zero b)
                  \<and> (\<forall>a\<in>set post. score_or_zero a \<le> score_or_zero b)
                  \<and> select_top_article history articles True
                      = Some (b, previously_selected_rationale b)))"
proof (cases "List.find (\<lambda>a. \<not> is_article_previously_selected a history) (sort_by_score articles)")
  case (Some b)
  from find_sorted_split[OF Some[unfolded sort_by_score_def]]
  obtain pre post where "articles = pre @ b # post" "\<not> in_history b history"
    "\<forall>a\<in>set pre. \<not> in_history a history \<longrightarrow> score_or_zero a < score_or_zero b"
    "\<forall>a\<in>set post. \<not> in_history a history \<longrightarrow> score_or_zero a \<le> score_or_zero b"
    by (auto simp: previously_selected_iff)
  with select_found[OF assms Some] show ?thesis by blast
next
  case None
  then have all: "\<forall>a\<in>set articles. in_history a history"
    by (auto simp: find_None_iff sort_by_score_def previously_selected_iff)
  let ?b = "hd (sort_by_score articles)"
  from hd_sort_key_split[OF assms, of "\<lambda>x. - score_or_zero x"]
  obtain pre post where "articles = pre @ ?b # post"
    "\<forall>a\<in>set pre. score_or_zero a < score_or_zero ?b"
    "\<forall>a\<in>set post. score_or_zero a \<le> score_or_zero ?b"
    by (auto simp: sort_by_score_def)
  with select_not_found[OF assms None] all show ?thesis by blast
qed

text \<open>
  The theorem at a list of two candidates whose better-scored one is in the history: the
  second candidate is returned with the plain rationale.
\<close>

theorem select_top_article_avoid_history_witness:
  "[candidate ''1'' (Some ''10.1/a'') (Some 5), candidate ''2'' None (Some 3)] \<noteq> []
   \<and> select_top_article [entry (Some ''10.1/a'') (Some ''1'')]
        [candidate ''1'' (Some ''10.1/a'') (Some 5), candidate ''2'' None (Some 3)] True
      = Some (candidate ''2'' None (Some 3), plain_rationale (candidate ''2'' None (Some 3)))"
  using select_top_article_avoid_history
          [of "[candidate ''1'' (Some ''10.1/a'') (Some 5), candidate ''2'' None (Some 3)]"
              "[entry (Some ''10.1/a'') (Some ''1'')]"]
  by (simp add: select_top_article_def sort_by_score_def score_or_zero_def candidate_def
        entry_def is_article_previously_selected_def)

text \<open>
  Claim C1 as stated, with the identity key (DOI if present, else PMID) compared with the
  entries, fails. The first candidate has the higher score and its identity key, the DOI
  \<open>10.1/a\<close>, is neither the DOI nor the PMID of the only history entry, which was stored
  without a DOI; the selector passes it over, because its PMID equals the entry's PMID,
  and returns the second candidate.
\<close>

theorem select_by_identity_key_counterexample:
  "score_or_zero (candidate ''2'' None (Some 3))
     < score_or_zero (candidate ''1'' (Some ''10.1/a'') (Some 5))
   \<and> \<not> identity_key_in_history (candidate ''1'' (Some ''10.1/a'') (Some 5))
         [entry None (Some ''1'')]
   \<and> select_top_article [entry None (Some ''1'')]
        [candidate ''1'' (Some ''10.1/a'') (Some 5), candidate ''2'' None (Some 3)] True
      = Some (candidate ''2'' None (Some 3), plain_rationale (candidate ''2'' None (Some 3)))"
  by (simp add: select_top_article_def sort_by_score_def score_or_zero_def candidate_def
        entry_def is_article_previously_selected_def identity_key_in_history_def
        article_identifier_def doi_or_empty_def)

text \<open>
  Claim C9. A candidate with no DOI (absent or empty) and an empty PMID is never reported
  as previously selected, whatever the history holds; so a candidate list that contains
  it never reaches the previously-selected fallback: with \<open>avoid_history = True\<close> the
  selector returns a candidate that is not in the history, with the plain rationale.
\<close>

theorem unidentified_article_never_previously_selected:
  assumes "\<not> truthy (doi a)" and "pmid a = []"
  shows "\<not> is_article_previously_selected a history
         \<and> (a \<in> set articles \<longrightarrow>
              (\<exists>b. select_top_article history articles True = Some (b, plain_rationale b)
                   \<and> \<not> is_article_previously_selected b history))"
proof (intro conjI impI)
  show na: "\<not> is_article_previously_selected a history"
    using assms by (simp add: is_article_previously_selected_def)
  assume mem: "a \<in> set articles"
  then have ne: "articles \<noteq> []" by auto
  let ?P = "\<lambda>a. \<not> is_article_previously_selected a history"
  from mem na have "List.find ?P (sort_by_score articles) \<noteq> None"
    by (auto simp: find_None_iff sort_by_score_def)
  then obtain b where b: "List.find ?P (sort_by_score articles) = Some b" by auto
  then have "?P b" by (auto simp: find_Some_iff)
  with select_found[OF ne b]
  show "\<exists>b. select_top_article history articles True = Some (b, plain_rationale b)
             \<and> \<not> is_article_previously_selected b history" by blast
qed

text \<open>
  The theorem at a candidate without identifiers and a history entry whose PMID is the
  empty string.
\<close>

theorem unidentified_article_never_previously_selected_witness:
  "\<not> truthy (doi (candidate [] None (Some 1))) \<and> pmid (candidate [] None (Some 1)) = []
   \<and> \<not> is_article_previously_selected (candidate [] None (Some 1)) [entry None (Some [])]
   \<and> select_top_article [entry None (Some [])] [candidate [] None (Some 1)] True
       = Some (candidate [] None (Some 1), plain_rationale (candidate [] None (Some 1)))"
  using unidentified_article_never_previously_selected
          [of "candidate [] None (Some 1)" "[entry None (Some [])]" "[candidate [] None (Some 1)]"]
  by (simp add: select_top_article_def sort_by_score_def score_or_zero_def candidate_def
        entry_def is_article_previously_selected_def)


section \<open>Scoring: proofs\<close>

lemma scenario_outcome:
  "list_ex (\<lambda>outcome. is_in outcome (lower ''30-day mortality'')) PATIENT_CENTERED_OUTCOMES"
  by code_simp

lemma scenario_intervention:
  "list_ex (\<lambda>i. is_in i (lower ''regional nerve block'')) CLINICALLY_ACTIONABLE_INTERVENTIONS"
  by code_simp

lemma scenario_journal: "''Anesthesiology'' \<in> set HIGH_QUALITY_JOURNALS"
  by (simp add: HIGH_QUALITY_JOURNALS_def)

lemma scenario_effect:
  "''35% reduction'' \<noteq> [] \<and> length (strip ''35% reduction'') > 0
   \<and> re_search percentage_rx ''35% reduction''"
  by code_simp

lemma scenario_join:
  "join ''; '' [''large sample size (>500)'', ''multicenter study'', ''patient-centered outcome'',
      ''clinically actionable intervention'', ''high-quality journal'', ''quantified effect'']
   = ''large sample size (>500); multicenter study; patient-centered outcome; clinically actionable intervention; high-quality journal; quantified effect''"
  by simp

text \<open>
  Claim C3. Every candidate with sample size 600, the multicenter flag set, primary outcome
  \<open>30-day mortality\<close>, intervention \<open>regional nerve block\<close>, journal \<open>Anesthesiology\<close> and
  effect summary \<open>35% reduction\<close> scores 3.0 + 1.0 + 1.5 + 1.5 + 2.0 + 1.0 = 10.0, and
  its rationale is the six reasons in rule order, joined by a semicolon and a space.
\<close>

theorem score_article_scenario:
  assumes "sample_size a = Some 600" and "multicenter a = Some True"
    and "primary_outcome a = ''30-day mortality''"
    and "intervention a = ''regional nerve block''"
    and "journal a = ''Anesthesiology''"
    and "effect_summary a = Some ''35% reduction''"
  shows "score_article a =
           (3 + 1 + 3 / 2 + 3 / 2 + 2 + 1,
            ''large sample size (>500); multicenter study; patient-centered outcome; clinically actionable intervention; high-quality journal; quantified effect'')
         \<and> fst (score_article a) = 10"
proof -
  have s1: "sample_size_rule a (0, []) = (3, [''large sample size (>500)''])"
    using assms(1) by (simp add: sample_size_rule_def award_def)
  have s6: "effect_rule a st = award True 1 ''quantified effect'' st" for st
    using assms(6) scenario_effect by (simp add: effect_rule_def)
  show ?thesis
    unfolding score_article_def Let_def s1 s6
    using assms(2-5) scenario_outcome scenario_intervention scenario_journal
    by (simp add: award_def)
qed

text \<open>The theorem at one such candidate.\<close>

theorem score_article_scenario_witness:
  "score_article
     ((candidate ''1'' None None)
        \<lparr>journal := ''Anesthesiology'', sample_size := Some 600, multicenter := Some True,
         intervention := ''regional nerve block'', primary_outcome := ''30-day mortality'',
         effect_summary := Some ''35% reduction''\<rparr>)
   = (10, ''large sample size (>500); multicenter study; patient-centered outcome; clinically actionable intervention; high-quality journal; quantified effect'')"
  using score_article_scenario
    [of "(candidate ''1'' None None)
        \<lparr>journal := ''Anesthesiology'', sample_size := Some 600, multicenter := Some True,
         intervention := ''regional nerve block'', primary_outcome := ''30-day mortality'',
         effect_summary := Some ''35% reduction''\<rparr>"]
  by (simp add: candidate_def)


section \<open>Deduplication: proofs\<close>

lemma dedup_loop_acc:
  "dedup_loop sd sp u xs = u @ dedup_loop sd sp [] xs"
proof (induction xs arbitrary: sd sp u)
  case Nil
  show ?case by simp
next
  case (Cons a xs)
  show ?case
    using Cons.IH[of _ _ "u @ [a]"] Cons.IH[of _ _ "[a]"] Cons.IH[of sd sp u]
    by simp
qed

lemma dedup_loop_subseq: "subseq (dedup_loop sd sp [] xs) xs"
proof (induction xs arbitrary: sd sp)
  case Nil
  show ?case by simp
next
  case (Cons a xs)
  show ?case
    using Cons.IH dedup_loop_acc[of _ _ "[a]" xs]
    by (auto simp del: dedup_loop.simps(2) simp add: dedup_loop.simps(2)[of sd sp "[]" a xs])
qed

lemma retainable_iff:
  "retainable kept a \<longleftrightarrow>
     article_identifier a \<noteq> [] \<and> article_identifier a \<notin> seen_dois_of kept
       \<and> article_identifier a \<notin> seen_pmids_of kept"
  by (auto simp: retainable_def list_ex_iff clashes_with_def seen_dois_of_def seen_pmids_of_def)

lemma seen_of_Cons:
  "seen_dois_of (b # kept) = (if truthy (doi b) then insert (doi_or_empty b) (seen_dois_of kept) else seen_dois_of kept)"
  "seen_pmids_of (b # kept) = (if pmid b \<noteq> [] then insert (pmid b) (seen_pmids_of kept) else seen_pmids_of kept)"
  by (auto simp: seen_dois_of_def seen_pmids_of_def)

lemma dedup_loop_snoc:
  "dedup_loop sd sp [] (xs @ [a]) =
     dedup_loop sd sp [] xs @
       (if article_identifier a \<noteq> []
           \<and> article_identifier a \<notin> sd \<union> seen_dois_of (dedup_loop sd sp [] xs)
           \<and> article_identifier a \<notin> sp \<union> seen_pmids_of (dedup_loop sd sp [] xs)
        then [a] else [])"
proof (induction xs arbitrary: sd sp)
  case Nil
  show ?case by (simp add: seen_dois_of_def seen_pmids_of_def)
next
  case (Cons x xs)
  let ?keep = "article_identifier x \<noteq> [] \<and> article_identifier x \<notin> sd \<and> article_identifier x \<notin> sp"
  show ?case
  proof (cases ?keep)
    case False
    then have "dedup_loop sd sp [] ((x # xs) @ [a]) = dedup_loop sd sp [] (xs @ [a])"
      and "dedup_loop sd sp [] (x # xs) = dedup_loop sd sp [] xs"
      by auto
    then show ?thesis using Cons.IH[of sd sp] by simp
  next
    case True
    let ?sd = "if truthy (doi x) then insert (doi_or_empty x) sd else sd"
    let ?sp = "if pmid x \<noteq> [] then insert (pmid x) sp else sp"
    from True have 1: "dedup_loop sd sp [] ((x # xs) @ [a]) = x # dedup_loop ?sd ?sp [] (xs @ [a])"
      using dedup_loop_acc[of ?sd ?sp "[x]" "xs @ [a]"] by simp
    from True have 2: "dedup_loop sd sp [] (x # xs) = x # dedup_loop ?sd ?sp [] xs"
      using dedup_loop_acc[of ?sd ?sp "[x]" xs] by simp
    show ?thesis
      unfolding 1 2 Cons.IH[of ?sd ?sp] seen_of_Cons
      by (simp only: append_Cons Un_insert_left Un_insert_right split: if_splits) auto
  qed
qed

lemma dedup_loop_fresh:
  "b \<in> set (dedup_loop sd sp [] xs) \<Longrightarrow>
     article_identifier b \<noteq> [] \<and> article_identifier b \<notin> sd \<and> article_identifier b \<notin> sp"
proof (induction xs arbitrary: sd sp)
  case Nil
  then show ?case by simp
next
  case (Cons x xs)
  let ?keep = "article_identifier x \<noteq> [] \<and> article_identifier x \<notin> sd \<and> article_identifier x \<notin> sp"
  show ?case
  proof (cases ?keep)
    case False
    with Cons.prems have "b \<in> set (dedup_loop sd sp [] xs)" by auto
    from Cons.IH[OF this] show ?thesis .
  next
    case True
    let ?sd = "if truthy (doi x) then insert (doi_or_empty x) sd else sd"
    let ?sp = "if pmid x \<noteq> [] then insert (pmid x) sp else sp"
    from True have 2: "dedup_loop sd sp [] (x # xs) = x # dedup_loop ?sd ?sp [] xs"
      using dedup_loop_acc[of ?sd ?sp "[x]" xs] by simp
    from Cons.prems[unfolded 2] have "b = x \<or> b \<in> set (dedup_loop ?sd ?sp [] xs)" by simp
    then show ?thesis
    proof
      assume "b = x" with True show ?thesis by simp
    next
      assume "b \<in> set (dedup_loop ?sd ?sp [] xs)"
      from Cons.IH[OF this] show ?thesis by (auto split: if_splits)
    qed
  qed
qed

lemma identifier_recorded:
  "article_identifier x \<noteq> [] \<Longrightarrow>
     article_identifier x \<in> (if truthy (doi x) then insert (doi_or_empty x) sd else sd)
       \<union> (if pmid x \<noteq> [] then insert (pmid x) sp else sp)"
  by (auto simp: article_identifier_def)

lemma dedup_loop_distinct:
  "distinct (map article_identifier (dedup_loop sd sp [] xs))"
proof (induction xs arbitrary: sd sp)
  case Nil
  show ?case by simp
next
  case (Cons x xs)
  let ?keep = "article_identifier x \<noteq> [] \<and> article_identifier x \<notin> sd \<and> article_identifier x \<notin> sp"
  show ?case
  proof (cases ?keep)
    case False
    then have "dedup_loop sd sp [] (x # xs) = dedup_loop sd sp [] xs" by auto
    then show ?thesis using Cons.IH[of sd sp] by simp
  next
    case True
    let ?sd = "if truthy (doi x) then insert (doi_or_empty x) sd else sd"
    let ?sp = "if pmid x \<noteq> [] then insert (pmid x) sp else sp"
    from True have 2: "dedup_loop sd sp [] (x # xs) = x # dedup_loop ?sd ?sp [] xs"
      using dedup_loop_acc[of ?sd ?sp "[x]" xs] by simp
    have "article_identifier x \<notin> article_identifier ` set (dedup_loop ?sd ?sp [] xs)"
    proof
      assume "article_identifier x \<in> article_identifier ` set (dedup_loop ?sd ?sp [] xs)"
      then obtain b where b: "b \<in> set (dedup_loop ?sd ?sp [] xs)"
        and eq: "article_identifier b = article_identifier x" by auto
      from dedup_loop_fresh[OF b] have "article_identifier b \<notin> ?sd \<union> ?sp" by blast
      moreover from True have "article_identifier x \<in> ?sd \<union> ?sp"
        by (intro identifier_recorded) simp
      ultimately show False using eq by simp
    qed
    then show ?thesis unfolding 2 using Cons.IH[of ?sd ?sp] by simp
  qed
qed

text \<open>
  Claim C2, as the code has it. \<open>deduplicate_articles\<close> returns a subsequence of its input,
  so the retained records keep their input order; a record is retained exactly when its
  identity key (DOI if present, else PMID) is non-empty and is neither the DOI nor the
  PMID of a record retained before it, which the equation for a list extended by one
  record states; the retained records have pairwise distinct identity keys; and of two
  records sharing a DOI only the first is kept, whatever their PMIDs.
\<close>

theorem deduplicate_articles_retains:
  "subseq (deduplicate_articles articles) articles
   \<and> distinct (map article_identifier (deduplicate_articles articles))
   \<and> deduplicate_articles (articles @ [a]) =
       deduplicate_articles articles @
         (if retainable (deduplicate_articles articles) a then [a] else [])
   \<and> (truthy (doi a) \<and> doi b = doi a \<longrightarrow> deduplicate_articles [a, b] = [a])"
proof (intro conjI impI)
  show "subseq (deduplicate_articles articles) articles"
    unfolding deduplicate_articles_def by (rule dedup_loop_subseq)
  show "distinct (map article_identifier (deduplicate_articles articles))"
    unfolding deduplicate_articles_def by (rule dedup_loop_distinct)
  show "deduplicate_articles (articles @ [a]) =
       deduplicate_articles articles @
         (if retainable (deduplicate_articles articles) a then [a] else [])"
    unfolding deduplicate_articles_def dedup_loop_snoc retainable_iff by simp
  assume "truthy (doi a) \<and> doi b = doi a"
  then show "deduplicate_articles [a, b] = [a]"
    by (cases "doi a") (auto simp: deduplicate_articles_def article_identifier_def doi_or_empty_def)
qed

text \<open>
  The theorem at two records with different DOIs, both retained, and at two records with
  the same DOI and different PMIDs, of which the first is retained.
\<close>

theorem deduplicate_articles_retains_witness:
  "deduplicate_articles ([candidate ''1'' (Some ''10.1/a'') None] @ [candidate ''2'' (Some ''10.1/b'') None])
     = [candidate ''1'' (Some ''10.1/a'') None, candidate ''2'' (Some ''10.1/b'') None]
   \<and> truthy (doi (candidate ''1'' (Some ''10.1/a'') None))
   \<and> doi (candidate ''3'' (Some ''10.1/a'') None) = doi (candidate ''1'' (Some ''10.1/a'') None)
   \<and> deduplicate_articles [candidate ''1'' (Some ''10.1/a'') None, candidate ''3'' (Some ''10.1/a'') None]
     = [candidate ''1'' (Some ''10.1/a'') None]"
  using deduplicate_articles_retains
    [of "[candidate ''1'' (Some ''10.1/a'') None]" "candidate ''1'' (Some ''10.1/a'') None"
        "candidate ''3'' (Some ''10.1/a'') None"]
  by (simp add: deduplicate_articles_def candidate_def article_identifier_def doi_or_empty_def)

text \<open>
  Claim C2 as stated fails. The second record has no DOI, so its identity key is its PMID
  \<open>1\<close>, which differs from the identity key \<open>10.1/a\<close> of the first record: it is the first
  record of its key and the claim retains it. The code drops it, because its key was seen
  as the PMID of the first record.
\<close>

theorem deduplicate_by_identity_key_counterexample:
  "article_identifier (candidate ''1'' (Some ''10.1/a'') None)
     \<noteq> article_identifier (candidate ''1'' None None)
   \<and> first_of_each_key {} [candidate ''1'' (Some ''10.1/a'') None, candidate ''1'' None None]
     = [candidate ''1'' (Some ''10.1/a'') None, candidate ''1'' None None]
   \<and> deduplicate_articles [candidate ''1'' (Some ''10.1/a'') None, candidate ''1'' None None]
     = [candidate ''1'' (Some ''10.1/a'') None]"
  by (simp add: deduplicate_articles_def candidate_def article_identifier_def doi_or_empty_def)


section \<open>Sectioning and text red flags: proofs\<close>

lemma header_materials_and_methods:
  "map_section_headers ''Materials and Methods'' = Some ''methods''"
  by code_simp

lemma header_background: "map_section_headers ''Background'' = Some ''introduction''"
  by code_simp

lemma empty_header_maps_to_abstract: "map_section_loop [] SECTION_SYNONYMS = Some ''abstract''"
  by (simp add: SECTION_SYNONYMS_def)

lemma map_section_headers_normalised:
  "map_section_headers header = map_section_loop (normalised_header header) SECTION_SYNONYMS"
  by (simp add: map_section_headers_def normalised_header_def)

text \<open>
  Claim C8 against the code. The two header lines of the claim do map as it says
  (\<open>header_materials_and_methods\<close>, \<open>header_background\<close>). But a line that matches no
  section name or synonym does not always leave the current section unchanged: when
  the normalisation leaves nothing of the line, as for an empty line, a line of digits
  such as a page number, or a line that begins with a colon or a hyphen, the test
  \<open>header_lower in synonym\<close> finds the empty header inside \<open>abstract\<close>, the line is taken
  for a header, and the current section becomes abstract. The loop over the lines of a
  PDF text and \<open>_identify_section_headers\<close> skip an empty line before they map it, which
  the loop over the lines of an HTML text does not; a line of digits passes in both.
\<close>

theorem empty_header_switches_to_abstract:
  assumes "normalised_header (strip line) = []"
  shows "map_section_headers (strip line) = Some ''abstract''
         \<and> current_section (section_step st line) = ''abstract''
         \<and> (strip line \<noteq> [] \<longrightarrow> current_section (section_pdf_step st line) = ''abstract'')"
proof -
  have m: "map_section_headers (strip line) = Some ''abstract''"
    using assms by (simp add: map_section_headers_normalised empty_header_maps_to_abstract)
  then show ?thesis
    by (simp add: section_step_def section_pdf_step_def Let_def)
qed

lemma page_number_header:
  "normalised_header (strip ''12'') = [] \<and> strip ''12'' \<noteq> []"
  by code_simp

lemma page_number_sections:
  "get_section (section_pdf_text page_number_text) ''methods'' = ''We did.''
   \<and> get_section (section_pdf_text page_number_text) ''abstract'' = ''late''"
  by code_simp

text \<open>
  The theorem at the line \<open>12\<close> read while the current section is methods. In the text of
  four lines \<open>Methods\<close>, \<open>We did.\<close>, \<open>12\<close>, \<open>late\<close> the last line, which follows the page
  number, is filed under abstract and not under methods.
\<close>

theorem empty_header_switches_to_abstract_witness:
  "normalised_header (strip ''12'') = []
   \<and> map_section_headers ''12'' = Some ''abstract''
   \<and> current_section (section_pdf_step (initial_sectioning\<lparr>current_section := ''methods''\<rparr>) ''12'')
       = ''abstract''
   \<and> get_section (section_pdf_text page_number_text) ''methods'' = ''We did.''
   \<and> get_section (section_pdf_text page_number_text) ''abstract'' = ''late''"
  using empty_header_switches_to_abstract
          [of "''12''" "initial_sectioning\<lparr>current_section := ''methods''\<rparr>"]
        page_number_header page_number_sections
  by (simp add: strip_def is_space_def)




section \<open>Excerpt selection: proofs\<close>

lemma length_join:
  "length (join sep xs) = sum_list (map length xs) + length sep * (length xs - 1)"
  by (induction sep xs rule: join.induct) auto

lemma length_le_estimate: "int (length p) \<le> 4 * estimate_tokens p + 3"
  unfolding estimate_tokens_def by linarith

lemma estimate_tokens_nonneg: "0 \<le> estimate_tokens p"
  by (simp add: estimate_tokens_def)

lemma sum_length_le_estimate:
  "int (sum_list (map length ws)) \<le> 4 * sum_list (map estimate_tokens ws) + 3 * int (length ws)"
proof (induction ws)
  case Nil
  show ?case by simp
next
  case (Cons w ws)
  then show ?case using length_le_estimate[of w] by simp
qed

lemma select_loop_structure:
  assumes "sum_list (map estimate_tokens sel) = cur" and "cur \<le> max 0 B"
  shows "\<exists>whole tail. select_loop B cur sel ps = whole @ tail
           \<and> sum_list (map estimate_tokens whole) \<le> max 0 B
           \<and> set whole \<subseteq> set sel \<union> fst ` set ps
           \<and> length (whole @ tail) \<le> length sel + length ps
           \<and> (tail = [] \<or>
                (\<exists>p\<in>fst ` set ps. 10 < B - sum_list (map estimate_tokens whole)
                    \<and> tail = [take (nat ((B - sum_list (map estimate_tokens whole)) * 4)) p
                                @ ''...'']))"
  using assms
proof (induction ps arbitrary: cur sel)
  case Nil
  then show ?case
    by (intro exI[of _ sel] exI[of _ "[]"]) simp
next
  case (Cons ps1 ps)
  obtain p s where ps1: "ps1 = (p, s)" by (cases ps1)
  show ?case
  proof (cases "cur + estimate_tokens p \<le> B")
    case True
    have 1: "sum_list (map estimate_tokens (sel @ [p])) = cur + estimate_tokens p"
      using Cons.prems(1) by simp
    have 2: "cur + estimate_tokens p \<le> max 0 B" using True by simp
    from Cons.IH[OF 1 2] obtain whole tail where
      a: "select_loop B (cur + estimate_tokens p) (sel @ [p]) ps = whole @ tail"
      and b: "sum_list (map estimate_tokens whole) \<le> max 0 B"
      and c: "set whole \<subseteq> set (sel @ [p]) \<union> fst ` set ps"
      and d: "length (whole @ tail) \<le> length (sel @ [p]) + length ps"
      and e: "tail = [] \<or>
                (\<exists>p\<in>fst ` set ps. 10 < B - sum_list (map estimate_tokens whole)
                    \<and> tail = [take (nat ((B - sum_list (map estimate_tokens whole)) * 4)) p
                                @ ''...''])"
      by blast
    have "select_loop B cur sel (ps1 # ps) = whole @ tail"
      using True a ps1 by simp
    moreover have "set whole \<subseteq> set sel \<union> fst ` set (ps1 # ps)"
      using c ps1 by auto
    moreover have "length (whole @ tail) \<le> length sel + length (ps1 # ps)"
      using d by simp
    moreover have "tail = [] \<or>
                (\<exists>p\<in>fst ` set (ps1 # ps). 10 < B - sum_list (map estimate_tokens whole)
                    \<and> tail = [take (nat ((B - sum_list (map estimate_tokens whole)) * 4)) p
                                @ ''...''])"
      using e by auto
    ultimately show ?thesis using b by blast
  next
    case False
    show ?thesis
    proof (cases "10 < B - cur")
      case True
      have "select_loop B cur sel (ps1 # ps) = sel @ [take (nat ((B - cur) * 4)) p @ ''...'']"
        using False True ps1 by simp
      then show ?thesis
        using Cons.prems True ps1
        by (intro exI[of _ sel] exI[of _ "[take (nat ((B - cur) * 4)) p @ ''...'']"]) auto
    next
      case nt: False
      have "select_loop B cur sel (ps1 # ps) = sel"
        using False nt ps1 by simp
      then show ?thesis
        using Cons.prems
        by (intro exI[of _ sel] exI[of _ "[]"]) auto
    qed
  qed
qed

lemma joined_length_bound:
  assumes "sum_list (map estimate_tokens whole) \<le> max 0 B"
    and "tail = [] \<or>
           (\<exists>p. 10 < B - sum_list (map estimate_tokens whole)
               \<and> tail = [take (nat ((B - sum_list (map estimate_tokens whole)) * 4)) p
                           @ ''...''])"
  shows "int (length (join [CHR 0x0A, CHR 0x0A] (whole @ tail)))
           \<le> 4 * max 0 B + 5 * int (length (whole @ tail))"
proof -
  let ?T = "sum_list (map estimate_tokens whole)"
  have w: "int (sum_list (map length whole)) \<le> 4 * ?T + 3 * int (length whole)"
    by (rule sum_length_le_estimate)
  from assms(2) show ?thesis
  proof
    assume "tail = []"
    then show ?thesis using w assms(1) by (simp add: length_join)
  next
    assume "\<exists>p. 10 < B - ?T \<and> tail = [take (nat ((B - ?T) * 4)) p @ ''...'']"
    then obtain p where r: "10 < B - ?T"
      and t: "tail = [take (nat ((B - ?T) * 4)) p @ ''...'']" by blast
    have "int (length (take (nat ((B - ?T) * 4)) p @ ''...'')) \<le> 4 * (B - ?T) + 3"
      using r by simp
    then show ?thesis using w r t by (simp add: length_join)
  qed
qed

text \<open>
  Claim C7, as the code has it. For every sectioned text, every maximum and every section
  that has a budget share, the excerpt is the join, by blank lines, of paragraphs of the
  section taken whole, whose own token estimates sum to at most the share (to zero when
  the share is negative), followed by at most one truncated prefix of a paragraph of the
  section, which is cut at four characters per remaining token (more than ten remain) and
  ends in an ellipsis; an empty section gives the empty excerpt. The token estimate of
  the excerpt itself exceeds the share by at most five quarters of a token per excerpted
  paragraph: up to three characters are lost when a paragraph's estimate is rounded
  down, and two join it to the next one.
\<close>

theorem excerpt_within_budget_share:
  assumes "allocate_token_budget fmul max_tokens section_name = Some allocated"
    and "sectioned section_name = Some section_text'"
  shows "\<exists>excerpt whole tail.
           select_excerpts_for_prompt fmul sectioned max_tokens section_name = Some excerpt
           \<and> excerpt = (if section_text' = [] then []
                         else join [CHR 0x0A, CHR 0x0A] (whole @ tail))
           \<and> selected_paragraphs_of section_text' allocated KEY_TERMS = whole @ tail
           \<and> set whole \<subseteq> set (split_blank_line section_text')
           \<and> sum_list (map estimate_tokens whole) \<le> max 0 allocated
           \<and> (tail = [] \<or>
                (\<exists>p\<in>set (split_blank_line section_text').
                    10 < allocated - sum_list (map estimate_tokens whole)
                    \<and> tail = [take (nat ((allocated - sum_list (map estimate_tokens whole)) * 4)) p
                                @ ''...'']))
           \<and> length (whole @ tail) \<le> length (split_blank_line section_text')
           \<and> estimate_tokens excerpt
               \<le> max 0 allocated + (5 * int (length (whole @ tail))) div 4"
proof -
  let ?ps = "scored_paragraphs KEY_TERMS section_text'"
  have ps_set: "fst ` set ?ps = set (split_blank_line section_text')"
    by (simp add: scored_paragraphs_def image_image)
  have ps_len: "length ?ps = length (split_blank_line section_text')"
    by (simp add: scored_paragraphs_def)
  have "sum_list (map estimate_tokens []) = (0::int)" and "(0::int) \<le> max 0 allocated"
    by simp_all
  from select_loop_structure[OF this, of ?ps] obtain whole tail where
    a: "selected_paragraphs_of section_text' allocated KEY_TERMS = whole @ tail"
    and b: "sum_list (map estimate_tokens whole) \<le> max 0 allocated"
    and c: "set whole \<subseteq> fst ` set ?ps"
    and d: "length (whole @ tail) \<le> length ?ps"
    and e: "tail = [] \<or>
                (\<exists>p\<in>fst ` set ?ps. 10 < allocated - sum_list (map estimate_tokens whole)
                    \<and> tail = [take (nat ((allocated - sum_list (map estimate_tokens whole)) * 4)) p
                                @ ''...''])"
    unfolding selected_paragraphs_of_def by auto
  from e have e': "tail = [] \<or>
                (\<exists>p. 10 < allocated - sum_list (map estimate_tokens whole)
                    \<and> tail = [take (nat ((allocated - sum_list (map estimate_tokens whole)) * 4)) p
                                @ ''...''])"
    by blast
  let ?excerpt = "select_excerpts_from_section section_text' allocated KEY_TERMS"
  have sel: "select_excerpts_for_prompt fmul sectioned max_tokens section_name = Some ?excerpt"
    using assms by (simp add: select_excerpts_for_prompt_def)
  have joined: "?excerpt = (if section_text' = [] then []
                            else join [CHR 0x0A, CHR 0x0A] (whole @ tail))"
    by (simp add: select_excerpts_from_section_def a)
  have len: "int (length ?excerpt) \<le> 4 * max 0 allocated + 5 * int (length (whole @ tail))"
  proof (cases "section_text' = []")
    case True
    then show ?thesis by (simp add: select_excerpts_from_section_def)
  next
    case False
    then have "?excerpt = join [CHR 0x0A, CHR 0x0A] (whole @ tail)"
      using joined by simp
    then show ?thesis using joined_length_bound[OF b e'] by simp
  qed
  have "estimate_tokens ?excerpt \<le> (4 * max 0 allocated + 5 * int (length (whole @ tail))) div 4"
    unfolding estimate_tokens_def using len by (rule zdiv_mono1) simp
  also have "\<dots> = max 0 allocated + (5 * int (length (whole @ tail))) div 4"
    by simp
  finally have est: "estimate_tokens ?excerpt
                       \<le> max 0 allocated + (5 * int (length (whole @ tail))) div 4" .
  have c': "set whole \<subseteq> set (split_blank_line section_text')"
    using c ps_set by simp
  have d': "length (whole @ tail) \<le> length (split_blank_line section_text')"
    using d ps_len by simp
  have e'': "tail = [] \<or>
                (\<exists>p\<in>set (split_blank_line section_text').
                    10 < allocated - sum_list (map estimate_tokens whole)
                    \<and> tail = [take (nat ((allocated - sum_list (map estimate_tokens whole)) * 4)) p
                                @ ''...''])"
    using e ps_set by simp
  from sel joined a b c' d' e'' est show ?thesis by blast
qed

lemma eight_short_selected:
  "select_excerpts_from_section eight_short_paragraphs 2 KEY_TERMS = eight_short_paragraphs"
  by code_simp

text \<open>
  The theorem at the conclusion section of a text, with a maximum of 40 tokens, whose
  five percent are two tokens.
\<close>

theorem excerpt_within_budget_share_witness:
  "allocate_token_budget exact_product 40 ''conclusion'' = Some 2
   \<and> [''conclusion'' \<mapsto> eight_short_paragraphs] ''conclusion'' = Some eight_short_paragraphs
   \<and> select_excerpts_for_prompt exact_product [''conclusion'' \<mapsto> eight_short_paragraphs] 40
        ''conclusion'' = Some eight_short_paragraphs
   \<and> estimate_tokens eight_short_paragraphs \<le> 2 + (5 * 8) div 4"
  using excerpt_within_budget_share
          [of exact_product 40 "''conclusion''" 2 "[''conclusion'' \<mapsto> eight_short_paragraphs]"
              eight_short_paragraphs]
        eight_short_selected
  by (simp add: allocate_token_budget_def exact_product_def py_int_def
        select_excerpts_for_prompt_def estimate_tokens_def eight_short_paragraphs_def)

text \<open>
  Claim C7 as stated fails. With a share of two tokens, which is the conclusion share of
  a maximum of 40, each of the eight paragraphs of
  three characters is estimated at zero tokens and accepted whole, so nothing is
  truncated; the excerpt is the whole section, 38 characters and nine tokens, which is
  more than one token above the share.
\<close>

theorem excerpt_exceeds_budget_counterexample:
  "select_excerpts_from_section eight_short_paragraphs 2 KEY_TERMS = eight_short_paragraphs
   \<and> estimate_tokens (select_excerpts_from_section eight_short_paragraphs 2 KEY_TERMS) = 9
   \<and> 2 + 1 < estimate_tokens (select_excerpts_from_section eight_short_paragraphs 2 KEY_TERMS)"
  unfolding eight_short_selected by code_simp


section \<open>Structured red flags: proofs\<close>

lemma exact_imprecise_condition:
  fixes v w :: rat
  shows "(v \<noteq> 0 \<and> \<bar>\<bar>w\<bar> / v\<bar> > 1) \<longleftrightarrow> (v \<noteq> 0 \<and> \<bar>w\<bar> > \<bar>v\<bar>)"
  by (cases "v = 0") simp_all

lemma underpowered_rule_other:
  "''Imprecise effect: wide confidence interval'' \<in> set (underpowered_rule a fl)
     \<longleftrightarrow> ''Imprecise effect: wide confidence interval'' \<in> set fl"
  by (simp add: underpowered_rule_def split: option.split)

lemma borderline_p_rule_other:
  "''Imprecise effect: wide confidence interval'' \<in> set (borderline_p_rule ar a fl)
     \<longleftrightarrow> ''Imprecise effect: wide confidence interval'' \<in> set fl"
  by (simp add: borderline_p_rule_def split: option.split)

lemma multiplicity_rule_other:
  "''Imprecise effect: wide confidence interval'' \<in> set (multiplicity_rule a fl)
     \<longleftrightarrow> ''Imprecise effect: wide confidence interval'' \<in> set fl"
  by (simp add: multiplicity_rule_def)

lemma design_opacity_rule_other:
  "''Imprecise effect: wide confidence interval'' \<in> set (design_opacity_rule a fl)
     \<longleftrightarrow> ''Imprecise effect: wide confidence interval'' \<in> set fl"
  by (simp add: design_opacity_rule_def Let_def)

lemma external_validity_rule_other:
  "''Imprecise effect: wide confidence interval'' \<in> set (external_validity_rule a fl)
     \<longleftrightarrow> ''Imprecise effect: wide confidence interval'' \<in> set fl"
  by (simp add: external_validity_rule_def Let_def)

lemma funding_rule_other:
  "''Imprecise effect: wide confidence interval'' \<in> set (funding_rule a fl)
     \<longleftrightarrow> ''Imprecise effect: wide confidence interval'' \<in> set fl"
  by (simp add: funding_rule_def Let_def)

lemma imprecise_rule_flag:
  assumes "card_effect_estimate a = Some ee"
    and "ee_value ee = Some v" and "ee_ci ee = Some [lo, hi]"
  shows "''Imprecise effect: wide confidence interval'' \<in> set (imprecise_rule ar a fl)
         \<longleftrightarrow> ''Imprecise effect: wide confidence interval'' \<in> set fl
               \<or> (v \<noteq> 0 \<and> \<bar>float_div ar \<bar>float_sub ar hi lo\<bar> v\<bar> > 1)"
  using assms by (auto simp: imprecise_rule_def)

text \<open>
  Claim C6, as the code has it. For a structured record that carries an effect estimate
  with a point value and a confidence interval of two bounds, the detector emits the
  imprecise-effect flag exactly when the point value is not zero and the floating-point
  quotient of the full width of the interval, which is the absolute value of the
  floating-point difference of its bounds, by the point value exceeds 1 in absolute
  value. Whenever that difference and that quotient are computed without rounding, this
  is exactly when the full width of the interval exceeds the absolute value of the point
  value.
\<close>

theorem imprecise_effect_flag:
  assumes "card_effect_estimate article = Some ee"
    and "ee_value ee = Some v" and "ee_ci ee = Some [lo, hi]"
  shows "(''Imprecise effect: wide confidence interval'' \<in> set (detect_red_flags ar article)
            \<longleftrightarrow> v \<noteq> 0 \<and> \<bar>float_div ar \<bar>float_sub ar hi lo\<bar> v\<bar> > 1)
         \<and> (float_sub ar hi lo = hi - lo
              \<and> float_div ar \<bar>hi - lo\<bar> v = \<bar>hi - lo\<bar> / v \<longrightarrow>
             (''Imprecise effect: wide confidence interval'' \<in> set (detect_red_flags ar article)
                \<longleftrightarrow> v \<noteq> 0 \<and> \<bar>hi - lo\<bar> > \<bar>v\<bar>))"
proof -
  have code: "''Imprecise effect: wide confidence interval'' \<in> set (detect_red_flags ar article)
         \<longleftrightarrow> v \<noteq> 0 \<and> \<bar>float_div ar \<bar>float_sub ar hi lo\<bar> v\<bar> > 1"
    unfolding detect_red_flags_def Let_def
    by (simp only: funding_rule_other external_validity_rule_other design_opacity_rule_other
          multiplicity_rule_other borderline_p_rule_other imprecise_rule_flag[OF assms]
          underpowered_rule_other) simp
  have exact: "''Imprecise effect: wide confidence interval'' \<in> set (detect_red_flags ar article)
                \<longleftrightarrow> v \<noteq> 0 \<and> \<bar>hi - lo\<bar> > \<bar>v\<bar>"
    if "float_sub ar hi lo = hi - lo \<and> float_div ar \<bar>hi - lo\<bar> v = \<bar>hi - lo\<bar> / v"
    using that exact_imprecise_condition[of v "hi - lo"] by (simp only: code)
  from code exact show ?thesis by blast
qed

text \<open>
  The theorem at the estimate 1 with interval [0, 1.5], which is flagged, and at the
  estimate 0 with interval [-1, 1], which is not.
\<close>

theorem imprecise_effect_flag_witness:
  "card_effect_estimate (card_with_estimate 1 [0, 3 / 2])
     = Some \<lparr>ee_measure = None, ee_value = Some 1, ee_ci = Some [0, 3 / 2], ee_p = None\<rparr>
   \<and> float_sub exact_arith (3 / 2) 0 = 3 / 2 - 0
   \<and> float_div exact_arith \<bar>3 / 2 - 0\<bar> 1 = \<bar>3 / 2 - 0\<bar> / 1
   \<and> ''Imprecise effect: wide confidence interval''
        \<in> set (detect_red_flags exact_arith (card_with_estimate 1 [0, 3 / 2]))
   \<and> ''Imprecise effect: wide confidence interval''
        \<notin> set (detect_red_flags exact_arith (card_with_estimate 0 [- 1, 1]))"
  using imprecise_effect_flag
          [of "card_with_estimate 1 [0, 3 / 2]"
              "\<lparr>ee_measure = None, ee_value = Some 1, ee_ci = Some [0, 3 / 2], ee_p = None\<rparr>"
              1 0 "3 / 2" exact_arith]
        imprecise_effect_flag
          [of "card_with_estimate 0 [- 1, 1]"
              "\<lparr>ee_measure = None, ee_value = Some 0, ee_ci = Some [- 1, 1], ee_p = None\<rparr>"
              0 "- 1" 1 exact_arith]
  by (simp add: card_with_estimate_def exact_arith_def)

lemma detect_red_flags_example:
  "detect_red_flags exact_arith (card_with_estimate 1 [0, 3 / 2])
     = [''Imprecise effect: wide confidence interval'',
        ''Multiplicity/selective reporting risk: primary outcome unclear'',
        ''Design opacity: missing allocation concealment, blinding'']"
  by (simp add: detect_red_flags_def underpowered_rule_def imprecise_rule_def
        borderline_p_rule_def multiplicity_rule_def design_opacity_rule_def
        external_validity_rule_def funding_rule_def card_with_estimate_def
        get_or_empty_def lower_def exact_arith_def)

text \<open>
  Claim C6 as stated fails. For the estimate 1 with interval [0, 1.5] the half-width is
  0.75, which does not exceed 1, and the flag is emitted: the code compares the full
  width 1.5 with the estimate. None of these numbers is rounded in binary floating point.
\<close>

theorem imprecise_effect_half_width_counterexample:
  "''Imprecise effect: wide confidence interval''
      \<in> set (detect_red_flags exact_arith (card_with_estimate 1 [0, 3 / 2]))
   \<and> \<not> ci_half_width_exceeds 1 0 (3 / 2)"
  unfolding detect_red_flags_example by (simp add: ci_half_width_exceeds_def)


section \<open>Full-text retrieval: proofs\<close>

text \<open>
  Claim C4. For every DOI, every PMID and every configuration whose manual full-text
  override is set (a non-empty text), the resolver returns the override text as HTML,
  tagged with the route \<open>override\<close>, whatever \<open>allow_network\<close> says, and the log of
  requests is returned as it was received: no network stage runs.
\<close>

theorem override_returned_without_network:
  assumes "truthy (fulltext_override settings')"
  shows "resolve_fulltext depth network settings' doi' pmid' sent
           = (Some ((route_only ''override'')\<lparr>ft_html := fulltext_override settings'\<rparr>), sent)
         \<and> ft_route (the (fst (resolve_fulltext depth network settings' doi' pmid' sent)))
             = ''override''"
  using assms by (simp add: resolve_fulltext_def route_only_def)

text \<open>The theorem at a configuration with an override and with networking disabled.\<close>

theorem override_returned_without_network_witness:
  "truthy (fulltext_override
             (default_settings\<lparr>fulltext_override := Some ''Full text.'',
                               allow_network := Some False\<rparr>))
   \<and> resolve_fulltext 5 refusing_network
        (default_settings\<lparr>fulltext_override := Some ''Full text.'', allow_network := Some False\<rparr>)
        (Some ''10.1/x'') (Some ''1'') []
      = (Some \<lparr>ft_route = ''override'', ft_pmcid = None, ft_oa_pdf_url = None,
               ft_publisher_url = None, ft_html = Some ''Full text.'', ft_pdf_bytes = None,
               ft_abstract = None\<rparr>, [])"
  using override_returned_without_network
          [of "default_settings\<lparr>fulltext_override := Some ''Full text.'',
                                 allow_network := Some False\<rparr>"
              5 refusing_network "Some ''10.1/x''" "Some ''1''" "[]"]
  by (simp add: default_settings_def route_only_def)

lemma refused_direct:
  "pmc_direct_access refusing_network s (JStr ''PMC1'') sent
     = (None, sent @ [pmc_pdf_url (JStr ''PMC1''), pmc_html_url (JStr ''PMC1'')])"
  by (simp add: pmc_direct_access_def make_request_def refusing_network_def on_200_def
        forbidden_response_def pmc_pdf_url_def pmc_html_url_def europe_pmc_search_url_def)

lemma no_direct_access: "pmc_direct_access network s JNull sent = (None, sent)"
  by (simp add: pmc_direct_access_def)

lemma refused_lookup:
  "get_pmcid_from_identifiers refusing_network s (Some ''10.1/x'') None sent
     = (JStr ''PMC1'', sent @ [europe_pmc_search_url])"
  by (simp add: get_pmcid_from_identifiers_def make_request_def refusing_network_def
        on_200_def search_response_def first_result_def)

lemma refused_reentry:
  "fetch_pmc depth refusing_network s (Some ''10.1/x'') None (JStr ''PMC1'') sent
     = (None, sent @ concat (replicate (Suc depth) refused_round))"
proof (induction depth arbitrary: sent)
  case 0
  show ?case
    by (subst fetch_pmc.simps) (simp add: refused_direct refused_lookup refused_round_def)
next
  case (Suc d)
  show ?case
    by (subst fetch_pmc.simps)
       (simp add: refused_direct refused_lookup Suc.IH refused_round_def)
qed

lemma count_list_concat_replicate:
  "count_list (concat (replicate n r)) x = n * count_list r x"
  by (induction n) simp_all

lemma refused_round_count: "count_list refused_round (pmc_pdf_url (JStr ''PMC1'')) = 1"
  by (simp add: refused_round_def pmc_pdf_url_def pmc_html_url_def europe_pmc_search_url_def)

text \<open>
  Claim C5 against the code. The claim bounds the repository stage to one re-entry. On
  the network where the search service keeps reporting the PMCID \<open>PMC1\<close> and the
  repository refuses both of its addresses, the stage started without a PMCID for the DOI
  \<open>10.1/x\<close> re-enters itself as often as the recursion limit allows: after the first
  look-up every activation requests the PDF, the page and the look-up again, so the PDF
  address is requested \<open>depth\<close> times. The source's comment before the look-up reads
  "If we don't have PMCID, try to get it from identifiers", but the look-up is not
  guarded by the absence of a PMCID.
\<close>

theorem fetch_pmc_reenters_to_the_limit:
  "fetch_pmc depth refusing_network s (Some ''10.1/x'') None JNull []
     = (None, europe_pmc_search_url # concat (replicate depth refused_round))
   \<and> count_list (snd (fetch_pmc depth refusing_network s (Some ''10.1/x'') None JNull []))
        (pmc_pdf_url (JStr ''PMC1'')) = depth"
proof -
  have run: "fetch_pmc depth refusing_network s (Some ''10.1/x'') None JNull []
              = (None, europe_pmc_search_url # concat (replicate depth refused_round))"
  proof (cases depth)
    case 0
    then show ?thesis
      by (subst fetch_pmc.simps) (simp add: no_direct_access refused_lookup)
  next
    case (Suc d)
    then show ?thesis
      by (subst fetch_pmc.simps) (simp add: no_direct_access refused_lookup refused_reentry)
  qed
  have "count_list (europe_pmc_search_url # concat (replicate depth refused_round))
          (pmc_pdf_url (JStr ''PMC1'')) = depth"
    by (simp add: count_list_concat_replicate refused_round_count)
       (simp add: pmc_pdf_url_def europe_pmc_search_url_def)
  with run show ?thesis by simp
qed

text \<open>The same run with room for three nested activations: three re-entries.\<close>

theorem fetch_pmc_three_reentries:
  "snd (fetch_pmc 3 refusing_network default_settings (Some ''10.1/x'') None JNull [])
     = europe_pmc_search_url # refused_round @ refused_round @ refused_round"
  using fetch_pmc_reenters_to_the_limit [of 3 default_settings]
  by (simp add: numeral_3_eq_3)

end
